theory Spec2Isabelle
  imports Complex_Main
begin

section \<open>Shared vocabulary of the three services\<close>

text \<open>
  The repository holds three bus clients: the wake listener
  (\<^verbatim>\<open>wake_listener.py\<close>), the voice gateway (\<^verbatim>\<open>voice_gateway.py\<close>)
  and the dialogue router (\<^verbatim>\<open>dialogue_router.py\<close>). Each handler is embedded
  as a function from its inputs (the message or event, and the values the environment
  hands back at each library call) to the list of actions it performs, in program order,
  together with the new state. An action is recorded when the call is made; an exception
  raised by a library call is a value of type \<open>error\<close>.
\<close>

subsection \<open>Python strings\<close>

text \<open>A Python \<^verbatim>\<open>str\<close> is a sequence of Unicode code points.\<close>

type_synonym pystr = "nat list"

definition pystr_of :: "string \<Rightarrow> pystr" where
  "pystr_of s = map of_char s"

text \<open>
  The code points \<^verbatim>\<open>str.strip()\<close> removes (CPython's \<^verbatim>\<open>Py_UNICODE_ISSPACE\<close>):
  TAB..CR, FS..US, SPACE, NEL, NBSP, U+1680, U+2000..U+200A, U+2028, U+2029, U+202F,
  U+205F, U+3000.
\<close>

definition py_isspace :: "nat \<Rightarrow> bool" where
  "py_isspace c \<longleftrightarrow>
     (9 \<le> c \<and> c \<le> 13) \<or> (28 \<le> c \<and> c \<le> 32) \<or> c = 133 \<or> c = 160 \<or> c = 5760 \<or>
     (8192 \<le> c \<and> c \<le> 8202) \<or> c = 8232 \<or> c = 8233 \<or> c = 8239 \<or> c = 8287 \<or> c = 12288"

definition strip :: "pystr \<Rightarrow> pystr" where
  "strip s = rev (dropWhile py_isspace (rev (dropWhile py_isspace s)))"

text \<open>\<^verbatim>\<open>str(n)\<close> for an integer: the decimal digits, with a minus sign when negative.\<close>

fun digits :: "nat \<Rightarrow> pystr" where
  "digits n = (if n < 10 then [48 + n] else digits (n div 10) @ [48 + n mod 10])"

definition py_str_int :: "int \<Rightarrow> pystr" where
  "py_str_int n = (if n < 0 then 45 # digits (nat (- n)) else digits (nat n))"

subsection \<open>JSON values\<close>

text \<open>
  The values that arrive in the data of an event or in a JSON payload, with Python's
  truth test: \<open>None\<close>, \<open>False\<close>, zero and the empty string, array and object are
  false.
\<close>

datatype json_value =
    JNull
  | JBool bool
  | JNumber real
  | JString pystr
  | JArray "json_value list"
  | JObject "(pystr \<times> json_value) list"

fun py_truthy :: "json_value \<Rightarrow> bool" where
  "py_truthy JNull = False"
| "py_truthy (JBool b) = b"
| "py_truthy (JNumber n) = (n \<noteq> 0)"
| "py_truthy (JString s) = (s \<noteq> [])"
| "py_truthy (JArray vs) = (vs \<noteq> [])"
| "py_truthy (JObject kvs) = (kvs \<noteq> [])"

subsection \<open>Audio buffers\<close>

text \<open>
  The format descriptor of an \<^verbatim>\<open>audio-start\<close> event. The functions of the
  \<^verbatim>\<open>audioop\<close> library are not part of the repository: a buffer is the expression
  that says which of them were applied, with which arguments, to the bytes received.
  The fields of a descriptor are integers; a field that is null is the field 0 here,
  both being false for \<^verbatim>\<open>x or d\<close>.
\<close>

record audio_fmt =
  af_rate :: int
  af_width :: int
  af_channels :: int

datatype pcm =
    RawPcm "nat list"             \<comment> \<open>the bytes of the chunks, concatenated\<close>
  | ToMono pcm int                \<comment> \<open>\<^verbatim>\<open>audioop.tomono(data, width, 0.5, 0.5)\<close>\<close>
  | Lin2Lin pcm int int           \<comment> \<open>\<^verbatim>\<open>audioop.lin2lin(data, width, newwidth)\<close>\<close>
  | RateCv pcm int int int int    \<comment> \<open>\<^verbatim>\<open>audioop.ratecv(data, width, nchannels, inrate, outrate, None)\<close>\<close>

text \<open>What \<^verbatim>\<open>wave.open(bio, "wb")\<close> is given: the three header fields and the frames.\<close>

record wav =
  nchannels :: int
  sampwidth :: int
  framerate :: int
  frames :: pcm

subsection \<open>Bus topics, payloads, processes, actions\<close>

text \<open>
  The four topics under \<^verbatim>\<open>BASE\<close>: \<^verbatim>\<open>tts/say\<close>, \<^verbatim>\<open>stt/capture\<close>, \<^verbatim>\<open>stt/text\<close>,
  \<^verbatim>\<open>wake/detected\<close>; any other topic string is \<open>OtherTopic\<close>.
\<close>

datatype topic = TOPIC_TTS_SAY | TOPIC_STT_CAP | TOPIC_STT_TEXT | TOPIC_WAKE | OtherTopic string

text \<open>The data of a recognizer \<^verbatim>\<open>wake\<close> event; each field may be absent.\<close>

record wake_data =
  wd_name :: "pystr option"
  wd_probability :: "real option"
  wd_timestamp :: "int option"

datatype payload =
    WakeJson wake_data        \<comment> \<open>\<^verbatim>\<open>json.dumps({"name":..,"probability":..,"timestamp":..})\<close>\<close>
  | TranscriptJson json_value int
      \<comment> \<open>\<^verbatim>\<open>json.dumps({"text": txt, "secs": secs})\<close>\<close>
  | PlainText pystr           \<comment> \<open>a plain string: \<^verbatim>\<open>str(CAPTURE_SECS)\<close>, a reply\<close>

datatype process =
    WakeArecord               \<comment> \<open>\<^verbatim>\<open>arecord ... -t raw -\<close>, unbounded, spawned by the wake listener\<close>
  | SttArecord int            \<comment> \<open>\<^verbatim>\<open>arecord ... -d seconds -t raw -\<close>, spawned by \<^verbatim>\<open>stt_once\<close>\<close>
  | BeepScript
  | Aplay

datatype service = WakeService | SttService | TtsService

datatype error =
    ConnectError | WriteError | ReadError | DisconnectError | SpawnError | PumpError
  | TimeoutError | KeyError | AudioopError | OverflowError

datatype action =
    Log string
  | Publish topic payload
  | Spawn process             \<comment> \<open>a process was created\<close>
  | SpawnFailed process       \<comment> \<open>the call that creates it raised\<close>
  | StartPump
  | CancelPump
  | AwaitPump
  | Terminate process
  | Kill process
  | WaitExit process bool     \<comment> \<open>a bounded wait for the exit; \<open>True\<close> when the exit was seen\<close>
  | ReturncodeSet process     \<comment> \<open>the test \<^verbatim>\<open>proc.returncode is None\<close> failed: the exit is on record\<close>
  | Sleep real
  | Connect service
  | WriteAudioStart service
  | WriteAudioChunk service
  | WriteAudioStop service
  | WriteSynthesize pystr
  | Disconnect service
  | PlayWav wav               \<comment> \<open>the container written to the standard input of \<^verbatim>\<open>aplay\<close>\<close>
  | StartThread

text \<open>The payloads published to one topic, and the processes created, in order.\<close>

fun published :: "topic \<Rightarrow> action list \<Rightarrow> payload list" where
  "published tp [] = []"
| "published tp (Publish tp' pl # as) = (if tp' = tp then pl # published tp as else published tp as)"
| "published tp (_ # as) = published tp as"

fun spawned :: "action list \<Rightarrow> process list" where
  "spawned [] = []"
| "spawned (Spawn p # as) = p # spawned as"
| "spawned (_ # as) = spawned as"

section \<open>The wake listener\<close>

record wake_cfg =
  WAKE_COOLDOWN :: int
  CAPTURE_SECS :: int

text \<open>
  The state of one run of \<^verbatim>\<open>stream_and_listen\<close>: the local \<^verbatim>\<open>last_wake_ts\<close>, and
  whether the module-level \<^verbatim>\<open>_mqtt\<close> client is set.
\<close>

record wake_state =
  last_wake_ts :: real
  mqtt_set :: bool

datatype wake_srv_event =
    WakeEv wake_data          \<comment> \<open>an event of type \<^verbatim>\<open>"wake"\<close>\<close>
  | OtherWakeEv string        \<comment> \<open>an event of any other type\<close>

text \<open>
  What the environment decides while one event is handled: the clock, the state of the
  pump task when it is cancelled, and how the \<^verbatim>\<open>arecord\<close> process reacts to
  \<^verbatim>\<open>stop_arecord\<close>.
\<close>

datatype pump_status =
    PumpRunning               \<comment> \<open>blocked in a read or a write: the cancellation is delivered\<close>
  | PumpEOF                   \<comment> \<open>already returned: \<^verbatim>\<open>arecord\<close> closed its output\<close>
  | PumpRaised                \<comment> \<open>already failed: \<^verbatim>\<open>write_event\<close> raised\<close>
  | PumpCancelled             \<comment> \<open>already cancelled and awaited, by the turn that was left\<close>

datatype exit_behaviour =
    AlreadyExited             \<comment> \<open>\<^verbatim>\<open>proc.returncode\<close> is already set\<close>
  | ExitsOnTerminate          \<comment> \<open>exits within 1 s of \<^verbatim>\<open>terminate()\<close>\<close>
  | ExitsOnKill               \<comment> \<open>exits within 1 s of \<^verbatim>\<open>kill()\<close> only\<close>
  | NeverExits                \<comment> \<open>both bounded waits time out\<close>

record wake_tick =
  t_event :: wake_srv_event
  t_now :: real               \<comment> \<open>the value of \<^verbatim>\<open>time.time()\<close> read for this event (line 157)\<close>
  t_beep_ok :: bool           \<comment> \<open>\<^verbatim>\<open>subprocess.Popen([BEEP_PATH])\<close> did not raise\<close>
  t_pump :: pump_status
  t_exits :: exit_behaviour
  t_respawn_ok :: bool        \<comment> \<open>the \<^verbatim>\<open>create_subprocess_exec\<close> after the pause did not raise\<close>

definition mqtt_publish :: "wake_state \<Rightarrow> topic \<Rightarrow> payload \<Rightarrow> action list" where
  "mqtt_publish st tp pl = (if \<not> mqtt_set st then [] else [Publish tp pl])"

definition play_beep_async :: "bool \<Rightarrow> action list" where
  "play_beep_async ok =
     (if ok then [Spawn BeepScript] else [SpawnFailed BeepScript, Log ''[wake] beep failed:''])"

definition spawn_arecord :: "bool \<Rightarrow> error option \<times> action list" where
  "spawn_arecord ok =
     (if ok then (None, [Log ''[wake] starting capture:'', Spawn WakeArecord])
      else (Some SpawnError, [Log ''[wake] starting capture:'', SpawnFailed WakeArecord]))"

text \<open>
  \<^verbatim>\<open>stop_arecord\<close>: no signal when the return code is set; otherwise terminate and
  wait up to 1 s, and on a timeout kill and wait up to 1 s more, that second timeout being
  suppressed.
\<close>

fun stop_arecord :: "exit_behaviour \<Rightarrow> action list" where
  "stop_arecord AlreadyExited = [ReturncodeSet WakeArecord]"
| "stop_arecord ExitsOnTerminate = [Terminate WakeArecord, WaitExit WakeArecord True]"
| "stop_arecord ExitsOnKill =
     [Terminate WakeArecord, WaitExit WakeArecord False, Kill WakeArecord, WaitExit WakeArecord True]"
| "stop_arecord NeverExits =
     [Terminate WakeArecord, WaitExit WakeArecord False, Kill WakeArecord, WaitExit WakeArecord False]"

text \<open>
  \<^verbatim>\<open>pump_task.cancel()\<close> followed by the awaited task under
  \<^verbatim>\<open>suppress(CancelledError)\<close>: a task that already failed re-raises its exception
  at the \<^verbatim>\<open>await\<close>.
\<close>

definition cancel_pump :: "pump_status \<Rightarrow> error option \<times> action list" where
  "cancel_pump p = (if p = PumpRaised then Some PumpError else None, [CancelPump, AwaitPump])"

text \<open>
  The first half of one turn of the \<^verbatim>\<open>while True\<close> loop, for an event that is not
  \<open>None\<close> (lines 153 to 181): the cooldown test, the publication of the detection, the
  beep, the teardown of pump and process, the capture request.
\<close>

datatype suspend_result =
    Ignored                   \<comment> \<open>not a wake event, or inside the cooldown: the loop reads on\<close>
  | Failed error              \<comment> \<open>an exception leaves the loop\<close>
  | Suspended wake_state      \<comment> \<open>the capture request is out; the pause follows\<close>

definition wake_suspend ::
  "wake_cfg \<Rightarrow> wake_state \<Rightarrow> wake_tick \<Rightarrow> suspend_result \<times> action list" where
  "wake_suspend cfg st t =
     (case t_event t of
        OtherWakeEv _ \<Rightarrow> (Ignored, [])
      | WakeEv d \<Rightarrow>
          (if t_now t - last_wake_ts st < real_of_int (WAKE_COOLDOWN cfg) then (Ignored, [])
           else
             (let st1 = st\<lparr>last_wake_ts := t_now t\<rparr>;
                  a1 = [Log ''[wake] detected:''] @ mqtt_publish st1 TOPIC_WAKE (WakeJson d)
                       @ play_beep_async (t_beep_ok t) @ [Log ''[wake] pausing mic for STT''];
                  (pump_exc, a2) = cancel_pump (t_pump t)
              in (case pump_exc of
                    Some e \<Rightarrow> (Failed e, a1 @ a2)
                  | None \<Rightarrow>
                      (Suspended st1,
                       a1 @ a2 @ stop_arecord (t_exits t)
                       @ mqtt_publish st1 TOPIC_STT_CAP (PlainText (py_str_int (CAPTURE_SECS cfg))))))))"

text \<open>The second half (lines 184 to 188): the pause, a fresh process and a fresh pump task.\<close>

definition wake_resume :: "wake_cfg \<Rightarrow> wake_tick \<Rightarrow> error option \<times> action list" where
  "wake_resume cfg t =
     (let a5 = [Sleep (real_of_int (CAPTURE_SECS cfg) + 2 / 10)];
          (spawn_exc, a6) = spawn_arecord (t_respawn_ok t)
      in (case spawn_exc of
            Some e \<Rightarrow> (Some e, a5 @ a6)
          | None \<Rightarrow> (None, a5 @ a6 @ [StartPump])))"

text \<open>
  One whole turn. The result is the exception that leaves the loop, or the state the loop
  goes on with; the actions are those performed up to that point.
\<close>

definition wake_iter ::
  "wake_cfg \<Rightarrow> wake_state \<Rightarrow> wake_tick \<Rightarrow> (error + wake_state) \<times> action list" where
  "wake_iter cfg st t =
     (case wake_suspend cfg st t of
        (Ignored, a) \<Rightarrow> (Inr st, a)
      | (Failed e, a) \<Rightarrow> (Inl e, a)
      | (Suspended st1, a) \<Rightarrow>
          (case wake_resume cfg t of
             (Some e, a') \<Rightarrow> (Inl e, a @ a')
           | (None, a') \<Rightarrow> (Inr st1, a @ a')))"

text \<open>
  The loop over the events the recognizer sends; the end of the list is the \<open>None\<close>
  that \<^verbatim>\<open>read_event\<close> returns when the stream ends. \<^verbatim>\<open>stream_and_listen\<close>
  enters it with \<^verbatim>\<open>last_wake_ts = 0.0\<close>, a running \<^verbatim>\<open>arecord\<close> and a running
  pump task.
\<close>

fun wake_loop ::
  "wake_cfg \<Rightarrow> wake_state \<Rightarrow> wake_tick list \<Rightarrow> error option \<times> wake_state \<times> action list" where
  "wake_loop cfg st [] = (None, st, [])"
| "wake_loop cfg st (t # ts) =
     (case wake_iter cfg st t of
        (Inl e, a) \<Rightarrow> (Some e, st, a)
      | (Inr st', a) \<Rightarrow>
          (case wake_loop cfg st' ts of (r, st'', a') \<Rightarrow> (r, st'', a @ a')))"

definition wake_init :: "bool \<Rightarrow> wake_state" where
  "wake_init has_mqtt = \<lparr>last_wake_ts = 0, mqtt_set = has_mqtt\<rparr>"

text \<open>
  A monitor for the order of the teardown within a trace of the wake listener. It records
  whether the pump task was cancelled and then awaited, whether the kill signal was sent
  to the wake \<^verbatim>\<open>arecord\<close>, whether its exit is on record, and whether the bounded
  wait after the kill expired. It rejects a trace (\<open>None\<close>) as soon as a signal is sent
  to the process before the pump task was joined, or a capture request is published too
  early: under \<open>strict\<close>, before the exit is on record; otherwise, before
  \<^verbatim>\<open>stop_arecord\<close> has either seen the exit or given up after the kill.
\<close>

record mon =
  m_cancelled :: bool
  m_joined :: bool
  m_killed :: bool
  m_exit_seen :: bool
  m_gave_up :: bool

definition mon0 :: mon where
  "mon0 = \<lparr>m_cancelled = False, m_joined = False, m_killed = False,
            m_exit_seen = False, m_gave_up = False\<rparr>"

definition mon_step :: "bool \<Rightarrow> mon \<Rightarrow> action \<Rightarrow> mon option" where
  "mon_step strict m a =
     (case a of
        StartPump \<Rightarrow> Some (m\<lparr>m_cancelled := False, m_joined := False\<rparr>)
      | CancelPump \<Rightarrow> Some (m\<lparr>m_cancelled := True\<rparr>)
      | AwaitPump \<Rightarrow> Some (m\<lparr>m_joined := m_cancelled m\<rparr>)
      | Spawn p \<Rightarrow>
          (if p = WakeArecord
           then Some (m\<lparr>m_killed := False, m_exit_seen := False, m_gave_up := False\<rparr>)
           else Some m)
      | Terminate p \<Rightarrow> (if p = WakeArecord \<and> \<not> m_joined m then None else Some m)
      | Kill p \<Rightarrow>
          (if p \<noteq> WakeArecord then Some m
           else if m_joined m then Some (m\<lparr>m_killed := True\<rparr>) else None)
      | WaitExit p seen \<Rightarrow>
          (if p \<noteq> WakeArecord then Some m
           else if seen then Some (m\<lparr>m_exit_seen := True\<rparr>)
           else Some (m\<lparr>m_gave_up := m_killed m\<rparr>))
      | ReturncodeSet p \<Rightarrow> (if p = WakeArecord then Some (m\<lparr>m_exit_seen := True\<rparr>) else Some m)
      | Publish tp pl \<Rightarrow>
          (if tp \<noteq> TOPIC_STT_CAP then Some m
           else if m_joined m \<and> (m_exit_seen m \<or> (\<not> strict \<and> m_gave_up m)) then Some m
           else None)
      | _ \<Rightarrow> Some m)"

fun mon_run :: "bool \<Rightarrow> mon \<Rightarrow> action list \<Rightarrow> mon option" where
  "mon_run strict m [] = Some m"
| "mon_run strict m (a # as) =
     (case mon_step strict m a of None \<Rightarrow> None | Some m' \<Rightarrow> mon_run strict m' as)"

definition teardown_ordered :: "bool \<Rightarrow> action list \<Rightarrow> bool" where
  "teardown_ordered strict as \<longleftrightarrow> mon_run strict mon0 as \<noteq> None"

subsection \<open>The clock\<close>

text \<open>
  \<^verbatim>\<open>time.time()\<close> is read once \<^verbatim>\<open>read_event\<close> has returned: not before the loop
  came back to \<^verbatim>\<open>read_event\<close>, and not before the event reached the socket. The loop
  comes back to \<^verbatim>\<open>read_event\<close> after the \<^verbatim>\<open>asyncio.sleep\<close> of the turn before,
  which lasts the time it is given at least. The clock is taken not to step back.
\<close>

record timed_event =
  e_arrival :: real           \<comment> \<open>when the event reaches the socket\<close>
  e_lag :: real               \<comment> \<open>what passes after that before the clock is read; counted from 0\<close>
  e_tick :: wake_tick         \<comment> \<open>the event and what the environment decides; its \<open>t_now\<close> is set here\<close>

fun slept :: "action list \<Rightarrow> real" where
  "slept [] = 0"
| "slept (Sleep d # as) = max 0 d + slept as"
| "slept (_ # as) = slept as"

definition reading :: "real \<Rightarrow> timed_event \<Rightarrow> real" where
  "reading ready e = max ready (e_arrival e) + max 0 (e_lag e)"

text \<open>
  The clock readings of the turns of the loop, from the time \<open>ready\<close> at which the loop
  first waits in \<^verbatim>\<open>read_event\<close>. Nothing is read after the turn that raises.
\<close>

fun timed_ticks :: "wake_cfg \<Rightarrow> wake_state \<Rightarrow> real \<Rightarrow> timed_event list \<Rightarrow> wake_tick list" where
  "timed_ticks cfg st ready [] = []"
| "timed_ticks cfg st ready (e # es) =
     (let t = (e_tick e)\<lparr>t_now := reading ready e\<rparr> in
      t # (case wake_iter cfg st t of
             (Inl err, a) \<Rightarrow> []
           | (Inr st', a) \<Rightarrow> timed_ticks cfg st' (t_now t + slept a) es))"

definition wake_run ::
  "wake_cfg \<Rightarrow> wake_state \<Rightarrow> real \<Rightarrow> timed_event list
     \<Rightarrow> error option \<times> wake_state \<times> action list" where
  "wake_run cfg st ready es = wake_loop cfg st (timed_ticks cfg st ready es)"

subsection \<open>The processes on the microphone\<close>

text \<open>
  The capture processes that a trace leaves behind: whether the process that the variable
  \<^verbatim>\<open>proc\<close> of the wake listener refers to was created without its exit being seen
  since; how many earlier processes of the wake listener were left in that state when
  \<^verbatim>\<open>proc\<close> was given a new one; and how many processes of \<^verbatim>\<open>stt_once\<close> were
  created without their exit being seen. The wake listener starts \<^verbatim>\<open>arecord\<close>
  with no duration: its process records until it is signalled or fails, and the exit is
  on record only after a wait has seen it.
\<close>

record mic =
  mic_current :: bool
  mic_leaked :: nat
  mic_stt :: nat

definition mic0 :: mic where
  "mic0 = \<lparr>mic_current = False, mic_leaked = 0, mic_stt = 0\<rparr>"

definition mic_step :: "mic \<Rightarrow> action \<Rightarrow> mic" where
  "mic_step m a =
     (case a of
        Spawn p \<Rightarrow>
          (case p of
             WakeArecord \<Rightarrow>
               m\<lparr>mic_leaked := mic_leaked m + (if mic_current m then 1 else 0),
                 mic_current := True\<rparr>
           | SttArecord s \<Rightarrow> m\<lparr>mic_stt := mic_stt m + 1\<rparr>
           | _ \<Rightarrow> m)
      | WaitExit p seen \<Rightarrow>
          (if \<not> seen then m
           else (case p of
                   WakeArecord \<Rightarrow> m\<lparr>mic_current := False\<rparr>
                 | SttArecord s \<Rightarrow> m\<lparr>mic_stt := mic_stt m - 1\<rparr>
                 | _ \<Rightarrow> m))
      | ReturncodeSet p \<Rightarrow> (case p of WakeArecord \<Rightarrow> m\<lparr>mic_current := False\<rparr> | _ \<Rightarrow> m)
      | _ \<Rightarrow> m)"

fun mic_after :: "mic \<Rightarrow> action list \<Rightarrow> mic" where
  "mic_after m [] = m"
| "mic_after m (a # as) = mic_after (mic_step m a) as"

text \<open>
  Whether, somewhere in a trace, \<^verbatim>\<open>stt_once\<close> creates its process while a process of
  the wake listener is there.
\<close>

fun is_stt_spawn :: "action \<Rightarrow> bool" where
  "is_stt_spawn (Spawn (SttArecord s)) = True"
| "is_stt_spawn _ = False"

fun capture_next_to_wake :: "mic \<Rightarrow> action list \<Rightarrow> bool" where
  "capture_next_to_wake m [] = False"
| "capture_next_to_wake m (a # as) =
     ((is_stt_spawn a \<and> (mic_current m \<or> 0 < mic_leaked m))
      \<or> capture_next_to_wake (mic_step m a) as)"

subsection \<open>\<^verbatim>\<open>stream_and_listen\<close> and \<^verbatim>\<open>main_async\<close>\<close>

record listen_env =
  l_connect_ok :: bool
  l_start_ok :: bool          \<comment> \<open>the write of \<^verbatim>\<open>audio-start\<close> did not raise\<close>
  l_spawn_ok :: bool
  l_ready :: real             \<comment> \<open>when the loop first waits in \<^verbatim>\<open>read_event\<close>\<close>
  l_events :: "timed_event list"
  l_end_pump :: pump_status   \<comment> \<open>the pump task when the stream ends\<close>
  l_end_exits :: exit_behaviour
    \<comment> \<open>how a process whose exit was not seen reacts to the \<^verbatim>\<open>stop_arecord\<close> of the
        \<^verbatim>\<open>finally\<close> block\<close>
  l_stderr :: bool            \<comment> \<open>the process wrote to its error output\<close>
  l_disconnect_ok :: bool

text \<open>Lines 199 to 206: \<^verbatim>\<open>proc.communicate()\<close> under a bound of 0.5 s, failures ignored.\<close>

definition drain :: "exit_behaviour \<Rightarrow> bool \<Rightarrow> action list" where
  "drain b has_err =
     (if b = NeverExits then [WaitExit WakeArecord False]
      else WaitExit WakeArecord True # (if has_err then [Log ''[wake] arecord stderr:''] else []))"

text \<open>
  The \<^verbatim>\<open>finally\<close> block (lines 190 to 208), from the way the loop was left and the
  actions so far. The pump task is the one the loop left behind: failed when the loop was
  left by its exception, cancelled already when the respawn raised. Awaiting a failed
  task raises its exception again, which leaves the block before \<^verbatim>\<open>stop_arecord\<close>.
\<close>

definition wake_finally ::
  "error option \<Rightarrow> action list \<Rightarrow> listen_env \<Rightarrow> error option \<times> action list" where
  "wake_finally left sofar env =
     (let pump = (case left of
                    None \<Rightarrow> l_end_pump env
                  | Some e \<Rightarrow> if e = PumpError then PumpRaised else PumpCancelled);
          exits = (if mic_current (mic_after mic0 sofar) then l_end_exits env else AlreadyExited);
          (pump_exc, a1) = cancel_pump pump
      in (case pump_exc of
            Some e \<Rightarrow> (Some e, a1)
          | None \<Rightarrow>
              (if l_disconnect_ok env then None else Some DisconnectError,
               a1 @ stop_arecord exits @ drain exits (l_stderr env) @ [Disconnect WakeService])))"

definition stream_and_listen :: "wake_cfg \<Rightarrow> bool \<Rightarrow> listen_env \<Rightarrow> error option \<times> action list" where
  "stream_and_listen cfg has_mqtt env =
     (if \<not> l_connect_ok env then (Some ConnectError, [Connect WakeService])
      else if \<not> l_start_ok env
      then (Some WriteError, [Connect WakeService, WriteAudioStart WakeService])
      else
        (case spawn_arecord (l_spawn_ok env) of
           (Some e, a) \<Rightarrow> (Some e, [Connect WakeService, WriteAudioStart WakeService] @ a)
         | (None, a) \<Rightarrow>
             (let pre = [Connect WakeService, WriteAudioStart WakeService] @ a @ [StartPump];
                  (left, st, body) = wake_run cfg (wake_init has_mqtt) (l_ready env) (l_events env);
                  (fin_exc, fin) = wake_finally left (pre @ body) env
              in ((case fin_exc of Some e \<Rightarrow> Some e | None \<Rightarrow> left), pre @ body @ fin))))"

text \<open>
  \<^verbatim>\<open>main_async\<close>: \<^verbatim>\<open>mqtt_connect\<close>, then \<^verbatim>\<open>stream_and_listen\<close> again and again,
  an exception logged, half a second between two runs. The loop has no end; the list
  holds the environment of the runs that are followed.
\<close>

fun restart_loop :: "wake_cfg \<Rightarrow> listen_env list \<Rightarrow> action list" where
  "restart_loop cfg [] = []"
| "restart_loop cfg (env # envs) =
     (case stream_and_listen cfg True env of
        (left, a) \<Rightarrow>
          a @ (case left of Some e \<Rightarrow> [Log ''[wake] error:''] | None \<Rightarrow> [])
          @ [Sleep (1 / 2)] @ restart_loop cfg envs)"

definition main_async :: "wake_cfg \<Rightarrow> bool \<Rightarrow> listen_env list \<Rightarrow> action list" where
  "main_async cfg mqtt_ok envs =
     (if \<not> mqtt_ok then [] else Log ''[wake] MQTT connected'' # restart_loop cfg envs)"

text \<open>The actions of the wake listener up to its first capture request, that request included.\<close>

fun until_request :: "action list \<Rightarrow> action list" where
  "until_request [] = []"
| "until_request (Publish tp pl # as) =
     (if tp = TOPIC_STT_CAP then [Publish tp pl] else Publish tp pl # until_request as)"
| "until_request (a # as) = a # until_request as"

section \<open>The voice gateway\<close>

record gw_cfg =
  STT_SECS_DEFAULT :: int

subsection \<open>One capture: \<^verbatim>\<open>stt_once\<close>\<close>

text \<open>
  What the environment hands back during one call of \<^verbatim>\<open>stt_once\<close>: whether each
  library call raises, what each read of the output of \<^verbatim>\<open>arecord\<close> yields, and
  what the recognizer sends back, with the clock.
\<close>

datatype read_step =
    Chunk bool                \<comment> \<open>a buffer was read; whether \<^verbatim>\<open>write_event\<close> of the chunk succeeded\<close>
  | ReadTimeout               \<comment> \<open>nothing within \<^verbatim>\<open>seconds + 2\<close>: \<^verbatim>\<open>wait_for\<close> raises\<close>

record stt_event =
  ev_type :: string
  ev_text :: "json_value option"
    \<comment> \<open>\<^verbatim>\<open>data.get("text")\<close>: any JSON value; \<open>None\<close> when the key is missing\<close>

datatype wait_step =
    Arrives stt_event         \<comment> \<open>\<^verbatim>\<open>read_event\<close> returns an event\<close>
  | StreamEnds                \<comment> \<open>it returns \<open>None\<close>\<close>
  | ReadRaises                \<comment> \<open>it raises: the connection broke\<close>

record wait_tick =
  w_now :: real               \<comment> \<open>\<^verbatim>\<open>time.time()\<close> at the loop test (line 161)\<close>
  w_arrives :: real           \<comment> \<open>when the next event, or the end of the stream, reaches \<^verbatim>\<open>read_event\<close>\<close>
  w_step :: wait_step

record stt_env =
  s_spawn_ok :: bool
  s_connect_ok :: bool
  s_start_ok :: bool
  s_reads :: "read_step list"
  s_stop_ok :: bool
  s_t0 :: real                \<comment> \<open>\<^verbatim>\<open>time.time()\<close> at line 159\<close>
  s_waits :: "wait_tick list"
  s_disconnect_ok :: bool
  s_communicate :: "bool option"
    \<comment> \<open>\<^verbatim>\<open>proc.communicate()\<close> under a 2 s bound: \<open>None\<close> when it timed out or raised,
        else whether the error output was non-empty\<close>

text \<open>
  The pump loop (lines 148 to 154); the end of the list is the empty buffer read at the
  end of the output. A read timeout is caught and logged; a failed write leaves the loop
  as an exception.
\<close>

fun stt_pump :: "read_step list \<Rightarrow> error option \<times> action list" where
  "stt_pump [] = (None, [])"
| "stt_pump (ReadTimeout # rs) = (None, [Log ''STT: read timeout from arecord; stopping early.''])"
| "stt_pump (Chunk ok # rs) =
     (if ok then (case stt_pump rs of (e, a) \<Rightarrow> (e, WriteAudioChunk SttService # a))
      else (Some WriteError, [WriteAudioChunk SttService]))"

definition stt_deadline :: "real \<Rightarrow> int \<Rightarrow> real" where
  "stt_deadline t0 seconds = t0 + real_of_int (max 6 (seconds + 3))"

text \<open>\<^verbatim>\<open>data.get("text") or transcript\<close>.\<close>

definition text_or :: "json_value option \<Rightarrow> json_value option \<Rightarrow> json_value option" where
  "text_or x transcript =
     (case x of None \<Rightarrow> transcript | Some v \<Rightarrow> if py_truthy v then x else transcript)"

definition transcript_class :: "stt_event \<Rightarrow> bool" where
  "transcript_class e \<longleftrightarrow> ev_type e = ''transcript'' \<or> ev_type e = ''text''"

text \<open>
  The wait for the transcript (lines 161 to 170). \<^verbatim>\<open>wait_for\<close> is given what is left
  until the deadline, so it returns what arrives before the deadline and raises
  \<^verbatim>\<open>TimeoutError\<close> otherwise; when the list is used up nothing arrives any more.
\<close>

fun wait_transcript ::
  "real \<Rightarrow> wait_tick list \<Rightarrow> error option \<times> json_value option \<times> action list" where
  "wait_transcript deadline [] = (Some TimeoutError, None, [])"
| "wait_transcript deadline (w # ws) =
     (if \<not> w_now w < deadline then (None, None, [])
      else if \<not> w_arrives w < deadline then (Some TimeoutError, None, [])
      else (case w_step w of
              StreamEnds \<Rightarrow> (None, None, [])
            | ReadRaises \<Rightarrow> (Some ReadError, None, [])
            | Arrives e \<Rightarrow>
                if transcript_class e then (None, text_or (ev_text e) None, [Log ''STT: got''])
                else wait_transcript deadline ws))"

definition communicate :: "bool option \<Rightarrow> int \<Rightarrow> action list" where
  "communicate outcome seconds =
     (case outcome of
        None \<Rightarrow> [WaitExit (SttArecord seconds) False]
      | Some has_err \<Rightarrow>
          WaitExit (SttArecord seconds) True # (if has_err then [Log ''arecord stderr:''] else []))"

text \<open>
  \<^verbatim>\<open>stt_once\<close>: the value returned or the exception raised, and the actions. The
  pump has a \<^verbatim>\<open>finally\<close> that writes \<^verbatim>\<open>audio-stop\<close>; the transcript wait has a
  \<^verbatim>\<open>finally\<close> that disconnects; the calls before the first \<^verbatim>\<open>try\<close> have none.
\<close>

definition stt_once :: "stt_env \<Rightarrow> int \<Rightarrow> (error + json_value option) \<times> action list" where
  "stt_once env seconds =
     (let a0 = [Log ''STT: starting capture:''] in
      if \<not> s_spawn_ok env then (Inl SpawnError, a0 @ [SpawnFailed (SttArecord seconds)])
      else
        (let a1 = a0 @ [Spawn (SttArecord seconds), Connect SttService] in
         if \<not> s_connect_ok env then (Inl ConnectError, a1)
         else
           (let a2 = a1 @ [WriteAudioStart SttService] in
            if \<not> s_start_ok env then (Inl WriteError, a2)
            else
              (let (pump_exc, ap) = stt_pump (s_reads env);
                   a3 = a2 @ ap @ [WriteAudioStop SttService]
               in if \<not> s_stop_ok env then (Inl WriteError, a3)
                  else
                    (case pump_exc of
                       Some e \<Rightarrow> (Inl e, a3)
                     | None \<Rightarrow>
                         (let (wait_exc, transcript, aw) =
                                wait_transcript (stt_deadline (s_t0 env) seconds) (s_waits env);
                              a4 = a3 @ aw @ [Disconnect SttService]
                          in if \<not> s_disconnect_ok env then (Inl DisconnectError, a4)
                             else
                               (case wait_exc of
                                  Some e \<Rightarrow> (Inl e, a4)
                                | None \<Rightarrow>
                                    (Inr transcript,
                                     a4 @ communicate (s_communicate env) seconds
                                     @ [Log ''STT: arecord exit code'']))))))))"

subsection \<open>The bus handler: \<^verbatim>\<open>on_message\<close> and the completion callback\<close>

record gw_state =
  stt_busy :: bool

text \<open>
  An inbound message: its topic, its payload as decoded by
  \<^verbatim>\<open>payload.decode("utf-8", "ignore")\<close>, and what \<^verbatim>\<open>int(float(raw))\<close> gives for the
  stripped payload (\<open>None\<close> when it raises).
\<close>

record message =
  m_topic :: topic
  m_text :: pystr
  m_float :: "int option"

text \<open>What \<^verbatim>\<open>on_message\<close> hands to another thread or to the event loop.\<close>

datatype gw_job =
    TtsJob pystr              \<comment> \<open>a thread running \<^verbatim>\<open>tts_play_48k(text)\<close>\<close>
  | SttJob int                \<comment> \<open>\<^verbatim>\<open>stt_once(secs)\<close> submitted to the loop\<close>

definition on_message ::
  "gw_cfg \<Rightarrow> gw_state \<Rightarrow> message \<Rightarrow> action list \<times> gw_state \<times> gw_job option" where
  "on_message cfg st m =
     (if m_topic m = TOPIC_TTS_SAY then
        (let text = strip (m_text m) in ([Log ''MQTT:'', StartThread], st, Some (TtsJob text)))
      else if m_topic m = TOPIC_STT_CAP then
        (let raw = strip (m_text m);
             secs = (if raw \<noteq> []
                     then (case m_float m of Some n \<Rightarrow> n | None \<Rightarrow> STT_SECS_DEFAULT cfg)
                     else STT_SECS_DEFAULT cfg)
         in if stt_busy st then ([Log ''MQTT:'', Log ''STT: busy; ignoring request.''], st, None)
            else ([Log ''MQTT:''], st\<lparr>stt_busy := True\<rparr>, Some (SttJob secs)))
      else ([], st, None))"

text \<open>The callback \<^verbatim>\<open>_done\<close> of the future (lines 212 to 221).\<close>

definition stt_done ::
  "gw_state \<Rightarrow> int \<Rightarrow> error + json_value option \<Rightarrow> action list \<times> gw_state" where
  "stt_done st secs res =
     (let (a, txt) = (case res of Inl e \<Rightarrow> ([Log ''STT error:''], None) | Inr t \<Rightarrow> ([], t));
          b = (case txt of
                 None \<Rightarrow> []
               | Some v \<Rightarrow>
                   if py_truthy v then [Publish TOPIC_STT_TEXT (TranscriptJson v secs)] else [])
      in (a @ b, st\<lparr>stt_busy := False\<rparr>))"

text \<open>An accepted request from the start of \<^verbatim>\<open>stt_once\<close> to the end of the callback.\<close>

definition capture_session :: "gw_state \<Rightarrow> stt_env \<Rightarrow> int \<Rightarrow> action list \<times> gw_state" where
  "capture_session st env secs =
     (case stt_once env secs of
        (res, a) \<Rightarrow> (case stt_done st secs res of (b, st') \<Rightarrow> (a @ b, st')))"

text \<open>
  A capture request handled by \<^verbatim>\<open>on_message\<close>, followed, when it is accepted, by the
  capture it starts and the callback.
\<close>

definition handle_capture :: "gw_cfg \<Rightarrow> gw_state \<Rightarrow> stt_env \<Rightarrow> message \<Rightarrow> action list" where
  "handle_capture cfg st env m =
     (case on_message cfg st m of
        (a, st', Some (SttJob secs)) \<Rightarrow> a @ fst (capture_session st' env secs)
      | (a, st', _) \<Rightarrow> a)"






subsection \<open>Playback: \<^verbatim>\<open>tts_play_48k\<close>\<close>

datatype tts_event =
    AudioStartEv audio_fmt
  | AudioChunkEv "nat list"
  | AudioStopEv
  | MalformedAudioEv
      \<comment> \<open>an \<^verbatim>\<open>audio-start\<close> or \<^verbatim>\<open>audio-chunk\<close> event that lacks a key:
          \<^verbatim>\<open>from_event\<close> raises \<^verbatim>\<open>KeyError\<close>\<close>
  | OtherTtsEv string

datatype aplay_outcome = AplayPlays | AplayPopenRaises | AplayWriteRaises | AplayWaitExpires

record tts_env =
  x_connect_ok :: bool
  x_write_ok :: bool
  x_events :: "tts_event list"
  x_disconnect_ok :: bool
  x_aplay :: aplay_outcome

text \<open>The read loop of \<^verbatim>\<open>_synth\<close> (lines 72 to 85); the end of the list is \<open>None\<close>.\<close>

fun synth_collect ::
  "tts_event list \<Rightarrow> audio_fmt option \<Rightarrow> nat list \<Rightarrow> error + audio_fmt option \<times> nat list" where
  "synth_collect [] fmt pcm = Inr (fmt, pcm)"
| "synth_collect (AudioStartEv f # es) fmt pcm = synth_collect es (Some f) pcm"
| "synth_collect (AudioChunkEv b # es) fmt pcm = synth_collect es fmt (pcm @ b)"
| "synth_collect (AudioStopEv # es) fmt pcm = Inr (fmt, pcm)"
| "synth_collect (MalformedAudioEv # es) fmt pcm = Inl KeyError"
| "synth_collect (OtherTtsEv _ # es) fmt pcm = synth_collect es fmt pcm"

text \<open>\<^verbatim>\<open>x or d\<close> for an integer \<open>x\<close>.\<close>

definition int_or :: "int \<Rightarrow> int \<Rightarrow> int" where
  "int_or x d = (if x = 0 then d else x)"

text \<open>
  The checks of the three \<^verbatim>\<open>audioop\<close> functions, on the byte count of the fragment
  they are given. Each takes its integer arguments as C \<^verbatim>\<open>int\<close>s and raises
  \<^verbatim>\<open>OverflowError\<close> beyond; each raises \<^verbatim>\<open>audioop.error\<close> for a width other
  than 1 to 4 bytes and for a fragment that is not a whole number of samples;
  \<^verbatim>\<open>tomono\<close> wants a whole number of stereo frames, \<^verbatim>\<open>ratecv\<close> a whole number
  of frames and positive rates. What they compute is not followed, nor is the exhaustion
  of memory. The result goes with its byte count, where a later check needs it.
\<close>

definition c_int :: "int \<Rightarrow> bool" where
  "c_int n \<longleftrightarrow> - 2147483648 \<le> n \<and> n \<le> 2147483647"

definition width_ok :: "int \<Rightarrow> bool" where
  "width_ok w \<longleftrightarrow> 1 \<le> w \<and> w \<le> 4"

definition audioop_tomono :: "pcm \<Rightarrow> int \<Rightarrow> int \<Rightarrow> error + pcm \<times> int" where
  "audioop_tomono d len width =
     (if \<not> c_int width then Inl OverflowError
      else if \<not> width_ok width \<or> len mod width \<noteq> 0 \<or> (len div width) mod 2 \<noteq> 0
      then Inl AudioopError
      else Inr (ToMono d width, len div 2))"

definition audioop_lin2lin :: "pcm \<Rightarrow> int \<Rightarrow> int \<Rightarrow> int \<Rightarrow> error + pcm \<times> int" where
  "audioop_lin2lin d len width newwidth =
     (if \<not> c_int width \<or> \<not> c_int newwidth then Inl OverflowError
      else if \<not> width_ok width \<or> len mod width \<noteq> 0 \<or> \<not> width_ok newwidth
      then Inl AudioopError
      else Inr (Lin2Lin d width newwidth, (len div width) * newwidth))"

definition audioop_ratecv :: "pcm \<Rightarrow> int \<Rightarrow> int \<Rightarrow> int \<Rightarrow> int \<Rightarrow> int \<Rightarrow> error + pcm" where
  "audioop_ratecv d len width nch inrate outrate =
     (if \<not> c_int width \<or> \<not> c_int nch \<or> \<not> c_int inrate \<or> \<not> c_int outrate
      then Inl OverflowError
      else if \<not> width_ok width \<or> nch < 1 \<or> len mod (width * nch) \<noteq> 0
              \<or> inrate \<le> 0 \<or> outrate \<le> 0
      then Inl AudioopError
      else Inr (RateCv d width nch inrate outrate))"

text \<open>
  The transform of lines 91 to 113: the container, or the exception that one of the
  three functions raises. A field of the descriptor that is 0 or null counts as absent
  and takes its default.
\<close>

definition to_wav_48k :: "audio_fmt \<Rightarrow> nat list \<Rightarrow> error + wav" where
  "to_wav_48k fmt pcm_bytes =
     (let width = int_or (af_width fmt) 2;
          channels = int_or (af_channels fmt) 1;
          rate = int_or (af_rate fmt) 16000;
          data0 = (RawPcm pcm_bytes, int (length pcm_bytes))
      in (case (if channels = 2 then audioop_tomono (fst data0) (snd data0) width else Inr data0) of
            Inl e \<Rightarrow> Inl e
          | Inr data1 \<Rightarrow>
              (case (if width \<noteq> 2 then audioop_lin2lin (fst data1) (snd data1) width 2
                     else Inr data1) of
                 Inl e \<Rightarrow> Inl e
               | Inr data2 \<Rightarrow>
                   (case audioop_ratecv (fst data2) (snd data2) 2 1 rate 48000 of
                      Inl e \<Rightarrow> Inl e
                    | Inr resamp \<Rightarrow>
                        Inr \<lparr>nchannels = 1, sampwidth = 2, framerate = 48000,
                             frames = resamp\<rparr>))))"

text \<open>
  \<^verbatim>\<open>_synth\<close>: the session is disconnected after the read loop and before the
  transform; an exception of the read loop leaves it connected.
\<close>

definition synth :: "tts_env \<Rightarrow> pystr \<Rightarrow> (error + wav option) \<times> action list" where
  "synth env text =
     (if \<not> x_connect_ok env then (Inl ConnectError, [Connect TtsService])
      else if \<not> x_write_ok env
      then (Inl WriteError, [Connect TtsService, WriteSynthesize text])
      else
        (case synth_collect (x_events env) None [] of
           Inl e \<Rightarrow> (Inl e, [Connect TtsService, WriteSynthesize text])
         | Inr (fmt, pcm_bytes) \<Rightarrow>
             (let a = [Connect TtsService, WriteSynthesize text, Disconnect TtsService]
              in if \<not> x_disconnect_ok env then (Inl DisconnectError, a)
                 else (case fmt of
                         None \<Rightarrow> (Inr None, a)
                       | Some f \<Rightarrow>
                           if pcm_bytes = [] then (Inr None, a)
                           else (case to_wav_48k f pcm_bytes of
                                   Inl e \<Rightarrow> (Inl e, a)
                                 | Inr w \<Rightarrow> (Inr (Some w), a))))))"

definition aplay :: "aplay_outcome \<Rightarrow> wav \<Rightarrow> action list" where
  "aplay outcome w =
     (case outcome of
        AplayPlays \<Rightarrow> [Spawn Aplay, PlayWav w, WaitExit Aplay True]
      | AplayPopenRaises \<Rightarrow> [SpawnFailed Aplay, Log ''TTS: aplay failed:'']
      | AplayWriteRaises \<Rightarrow> [Spawn Aplay, PlayWav w, Log ''TTS: aplay failed:'']
      | AplayWaitExpires \<Rightarrow>
          [Spawn Aplay, PlayWav w, WaitExit Aplay False, Log ''TTS: aplay failed:''])"

definition tts_play_48k :: "tts_env \<Rightarrow> pystr \<Rightarrow> error option \<times> action list" where
  "tts_play_48k env text =
     (if text = [] then (None, [])
      else
        (case synth env text of
           (Inl e, a) \<Rightarrow> (Some e, Log ''TTS:'' # a)
         | (Inr None, a) \<Rightarrow> (None, Log ''TTS:'' # a @ [Log ''TTS: no audio returned from Piper.''])
         | (Inr (Some w), a) \<Rightarrow>
             (None, Log ''TTS:'' # a @ [Log ''TTS: playing with:''] @ aplay (x_aplay env) w)))"

text \<open>A message handled by \<^verbatim>\<open>on_message\<close>, followed by the run of the thread it starts.\<close>

definition handle_message :: "gw_cfg \<Rightarrow> gw_state \<Rightarrow> tts_env \<Rightarrow> message \<Rightarrow> action list" where
  "handle_message cfg st env m =
     (case on_message cfg st m of
        (a, st', Some (TtsJob text)) \<Rightarrow> a @ snd (tts_play_48k env text)
      | (a, st', _) \<Rightarrow> a)"

text \<open>
  The layout of the samples a buffer holds, from the layout of the bytes received,
  following what \<^verbatim>\<open>audioop\<close> documents: \<^verbatim>\<open>tomono\<close> turns a stereo fragment of the
  given width into a mono one, \<^verbatim>\<open>lin2lin\<close> changes the width, \<^verbatim>\<open>ratecv\<close> changes
  the rate of a fragment of the given width and number of channels; widths are 1 to 4
  bytes and rates are positive. \<open>None\<close> where a function is given a fragment that is not
  of the layout its arguments declare: it raises, or its result is not a stream of
  samples of any layout.
\<close>

fun pcm_layout :: "audio_fmt \<Rightarrow> pcm \<Rightarrow> audio_fmt option" where
  "pcm_layout src (RawPcm bs) = Some src"
| "pcm_layout src (ToMono d w) =
     (case pcm_layout src d of
        None \<Rightarrow> None
      | Some f \<Rightarrow>
          if af_width f = w \<and> width_ok w \<and> af_channels f = 2 then Some (f\<lparr>af_channels := 1\<rparr>)
          else None)"
| "pcm_layout src (Lin2Lin d w w') =
     (case pcm_layout src d of
        None \<Rightarrow> None
      | Some f \<Rightarrow>
          if af_width f = w \<and> width_ok w \<and> width_ok w' then Some (f\<lparr>af_width := w'\<rparr>)
          else None)"
| "pcm_layout src (RateCv d w n r r') =
     (case pcm_layout src d of
        None \<Rightarrow> None
      | Some f \<Rightarrow>
          if af_width f = w \<and> width_ok w \<and> af_channels f = n \<and> af_rate f = r \<and> 0 < r \<and> 0 < r'
          then Some (f\<lparr>af_rate := r'\<rparr>)
          else None)"

text \<open>The layout the bytes of a synthesis have: the descriptor, with the defaults of lines 91 to 93.\<close>

definition source_layout :: "audio_fmt \<Rightarrow> audio_fmt" where
  "source_layout fmt =
     \<lparr>af_rate = int_or (af_rate fmt) 16000, af_width = int_or (af_width fmt) 2,
      af_channels = int_or (af_channels fmt) 1\<rparr>"

text \<open>A container tells the truth when its frames have the layout its header announces.\<close>

definition wav_faithful :: "audio_fmt \<Rightarrow> wav \<Rightarrow> bool" where
  "wav_faithful src w \<longleftrightarrow>
     pcm_layout src (frames w)
       = Some \<lparr>af_rate = framerate w, af_width = sampwidth w, af_channels = nchannels w\<rparr>"


definition capture_stopped :: "int \<Rightarrow> action list \<Rightarrow> bool" where
  "capture_stopped seconds as \<longleftrightarrow>
     Terminate (SttArecord seconds) \<in> set as \<or> Kill (SttArecord seconds) \<in> set as
     \<or> WaitExit (SttArecord seconds) True \<in> set as"

definition in_time :: "real \<Rightarrow> wait_tick \<Rightarrow> bool" where
  "in_time deadline w \<longleftrightarrow> w_now w < deadline \<and> w_arrives w < deadline"

text \<open>An event that is not of type \<^verbatim>\<open>transcript\<close> or \<^verbatim>\<open>text\<close>: the wait reads on.\<close>

definition passed_over :: "wait_tick \<Rightarrow> bool" where
  "passed_over w \<longleftrightarrow> (case w_step w of Arrives e \<Rightarrow> \<not> transcript_class e | _ \<Rightarrow> False)"

text \<open>An event of type \<^verbatim>\<open>transcript\<close> or \<^verbatim>\<open>text\<close> whose text passes the truth test.\<close>

definition qualifying :: "wait_tick \<Rightarrow> bool" where
  "qualifying w \<longleftrightarrow>
     (case w_step w of
        Arrives e \<Rightarrow>
          transcript_class e \<and> (case ev_text e of None \<Rightarrow> False | Some v \<Rightarrow> py_truthy v)
      | _ \<Rightarrow> False)"

text \<open>The capture gets as far as the transcript wait.\<close>

definition reaches_wait :: "stt_env \<Rightarrow> bool" where
  "reaches_wait env \<longleftrightarrow>
     s_spawn_ok env \<and> s_connect_ok env \<and> s_start_ok env \<and> s_stop_ok env
     \<and> fst (stt_pump (s_reads env)) = None"

text \<open>Whether \<^verbatim>\<open>tomono\<close> was applied somewhere in a buffer.\<close>

fun downmixed :: "pcm \<Rightarrow> bool" where
  "downmixed (RawPcm bs) = False"
| "downmixed (ToMono d w) = True"
| "downmixed (Lin2Lin d w w') = downmixed d"
| "downmixed (RateCv d w n r r') = downmixed d"

section \<open>The dialogue router\<close>

text \<open>
  \<^verbatim>\<open>str.lower()\<close> on the letters A to Z. Python lower-cases other cased code points
  too; the patterns tested below are made of ASCII letters and spaces.
\<close>

definition py_lower :: "pystr \<Rightarrow> pystr" where
  "py_lower s = map (\<lambda>c. if 65 \<le> c \<and> c \<le> 90 then c + 32 else c) s"

definition startswith :: "pystr \<Rightarrow> pystr \<Rightarrow> bool" where
  "startswith s pre \<longleftrightarrow> take (length pre) s = pre"

text \<open>\<^verbatim>\<open>pat in s\<close>.\<close>

fun contains :: "pystr \<Rightarrow> pystr \<Rightarrow> bool" where
  "contains pat [] = (pat = [])"
| "contains pat (c # cs) = (startswith (c # cs) pat \<or> contains pat cs)"

text \<open>
  \<^verbatim>\<open>intent_reply\<close>; its first argument stands for
  \<^verbatim>\<open>datetime.now().strftime("It is %I:%M %p.").lstrip("0")\<close>.
\<close>

definition intent_reply :: "pystr \<Rightarrow> pystr \<Rightarrow> pystr" where
  "intent_reply time_reply text =
     (let t = strip text in
      if t = [] then pystr_of ''I didn't catch that.''
      else
        (let low = py_lower t in
         if startswith low (pystr_of ''say '')
         then (let r = strip (drop 4 t) in if r = [] then pystr_of ''Okay.'' else r)
         else if contains (pystr_of ''what time'') low \<or> contains (pystr_of ''time is it'') low
         then time_reply
         else if contains (pystr_of ''your name'') low \<or> contains (pystr_of ''who are you'') low
         then pystr_of ''I am Oscar's voice assistant.''
         else pystr_of ''You said: '' @ t))"

text \<open>
  What \<^verbatim>\<open>json.loads(payload)\<close> gives for a payload that starts with a brace: it
  raises, or it returns an object, of which only the value under \<^verbatim>\<open>"text"\<close> is looked
  at (\<open>None\<close> when the key is absent).
\<close>

datatype json_loads = LoadsRaises | LoadsObject "json_value option"

record router_message =
  d_payload :: pystr          \<comment> \<open>\<^verbatim>\<open>msg.payload.decode("utf-8", "ignore")\<close>\<close>
  d_loads :: json_loads       \<comment> \<open>what \<^verbatim>\<open>json.loads\<close> gives for the stripped payload\<close>

text \<open>
  Lines 35 to 42. \<^verbatim>\<open>(v or "").strip()\<close> raises for a truthy value that is not a
  string; the inner \<^verbatim>\<open>except\<close> turns that, like a failed parse, into the empty text.
\<close>

definition heard_text :: "router_message \<Rightarrow> pystr" where
  "heard_text m =
     (let payload = strip (d_payload m) in
      if startswith payload (pystr_of ''{'') then
        (case d_loads m of
           LoadsRaises \<Rightarrow> []
         | LoadsObject None \<Rightarrow> strip []
         | LoadsObject (Some v) \<Rightarrow>
             if \<not> py_truthy v then strip []
             else (case v of JString s \<Rightarrow> strip s | _ \<Rightarrow> []))
      else payload)"

text \<open>\<^verbatim>\<open>on_message\<close> of the dialogue router.\<close>

definition on_message_router :: "pystr \<Rightarrow> router_message \<Rightarrow> action list" where
  "on_message_router time_reply m =
     (let reply = intent_reply time_reply (heard_text m) in
      Log ''[dialogue] heard='' #
      (if reply = [] then [] else [Publish TOPIC_TTS_SAY (PlainText reply)]))"

section \<open>Traces\<close>

lemma published_append: "published tp (xs @ ys) = published tp xs @ published tp ys"
  by (induction tp xs rule: published.induct) auto

lemma spawned_append: "spawned (xs @ ys) = spawned xs @ spawned ys"
  by (induction xs rule: spawned.induct) auto

section \<open>Properties of the wake listener\<close>

lemma mon_run_append:
  "mon_run strict m (xs @ ys) =
     (case mon_run strict m xs of None \<Rightarrow> None | Some m' \<Rightarrow> mon_run strict m' ys)"
  by (induction xs arbitrary: m) (auto split: option.splits)

lemmas wake_defs =
  wake_iter_def wake_suspend_def wake_resume_def cancel_pump_def mqtt_publish_def
  play_beep_async_def spawn_arecord_def Let_def

text \<open>
  One turn of the loop, started with a running pump and a running process, passes the
  monitor, and hands the next turn a running pump and a running process again.
\<close>

lemma wake_iter_mon:
  assumes "strict \<longrightarrow> t_exits t \<noteq> NeverExits"
  shows "case wake_iter cfg st t of
           (Inl e, a) \<Rightarrow> mon_run strict mon0 a \<noteq> None
         | (Inr st', a) \<Rightarrow> mon_run strict mon0 a = Some mon0"
  using assms
  by (cases "t_exits t"; cases "t_beep_ok t"; cases "mqtt_set st"; cases "t_respawn_ok t")
     (auto simp: wake_defs mon_step_def mon0_def split: wake_srv_event.splits)

lemma wake_loop_mon:
  assumes "strict \<longrightarrow> (\<forall>t \<in> set ts. t_exits t \<noteq> NeverExits)"
  shows "mon_run strict mon0 (snd (snd (wake_loop cfg st ts))) \<noteq> None"
  using assms
proof (induction ts arbitrary: st)
  case Nil
  then show ?case by simp
next
  case (Cons t ts)
  have it: "strict \<longrightarrow> t_exits t \<noteq> NeverExits"
    using Cons.prems by simp
  obtain r a where step: "wake_iter cfg st t = (r, a)"
    by (cases "wake_iter cfg st t")
  show ?case
  proof (cases r)
    case (Inl e)
    with step wake_iter_mon [OF it, of cfg st] show ?thesis by simp
  next
    case (Inr st')
    with step wake_iter_mon [OF it, of cfg st] have "mon_run strict mon0 a = Some mon0"
      by simp
    moreover have "mon_run strict mon0 (snd (snd (wake_loop cfg st' ts))) \<noteq> None"
      using Cons.IH Cons.prems by simp
    ultimately show ?thesis
      using step Inr by (auto simp: mon_run_append split: prod.splits)
  qed
qed

lemma slept_append: "slept (xs @ ys) = slept xs + slept ys"
  by (induction xs rule: slept.induct) auto

text \<open>
  An accepted wake, when neither the pump task nor the respawn raises, is followed by the
  pause before the loop reads again; and its detection is published whatever happens
  later in the turn.
\<close>

lemma wake_iter_accepts:
  assumes "t_event t = WakeEv d"
    and "\<not> t_now t - last_wake_ts st < real_of_int (WAKE_COOLDOWN cfg)"
    and "t_pump t \<noteq> PumpRaised" "t_respawn_ok t"
  shows "\<exists>a. wake_iter cfg st t = (Inr (st\<lparr>last_wake_ts := t_now t\<rparr>), a)
           \<and> slept a = max 0 (real_of_int (CAPTURE_SECS cfg) + 2 / 10)
           \<and> published TOPIC_WAKE a = (if mqtt_set st then [WakeJson d] else [])"
  using assms
  by (cases "t_exits t"; cases "t_beep_ok t")
     (auto simp: wake_defs slept_append published_append)

lemma wake_iter_publishes:
  assumes "t_event t = WakeEv d"
    and "\<not> t_now t - last_wake_ts st < real_of_int (WAKE_COOLDOWN cfg)"
    and "mqtt_set st"
  shows "published TOPIC_WAKE (snd (wake_iter cfg st t)) = [WakeJson d]"
  using assms
  by (cases "t_exits t"; cases "t_beep_ok t"; cases "t_respawn_ok t"; cases "t_pump t = PumpRaised")
     (auto simp: wake_defs published_append)

lemma second_wake_published:
  assumes "t_event (e_tick e1) = WakeEv d1" "t_event (e_tick e2) = WakeEv d2"
    and "real_of_int (WAKE_COOLDOWN cfg) \<le> reading ready e1"
    and "real_of_int (WAKE_COOLDOWN cfg) \<le> real_of_int (CAPTURE_SECS cfg) + 2 / 10"
    and "t_pump (e_tick e1) \<noteq> PumpRaised" "t_respawn_ok (e_tick e1)"
  shows "published TOPIC_WAKE (snd (snd (wake_run cfg (wake_init True) ready [e1, e2])))
           = [WakeJson d1, WakeJson d2]"
proof -
  let ?t1 = "(e_tick e1)\<lparr>t_now := reading ready e1\<rparr>"
  let ?st = "wake_init True"
  have acc: "\<not> t_now ?t1 - last_wake_ts ?st < real_of_int (WAKE_COOLDOWN cfg)"
    using assms(3) by (simp add: wake_init_def)
  obtain a where a: "wake_iter cfg ?st ?t1 = (Inr (?st\<lparr>last_wake_ts := t_now ?t1\<rparr>), a)"
    "slept a = max 0 (real_of_int (CAPTURE_SECS cfg) + 2 / 10)"
    "published TOPIC_WAKE a = [WakeJson d1]"
    using wake_iter_accepts [of ?t1 d1 ?st cfg] acc assms by (auto simp: wake_init_def)
  let ?st1 = "?st\<lparr>last_wake_ts := t_now ?t1\<rparr>"
  let ?t2 = "(e_tick e2)\<lparr>t_now := reading (t_now ?t1 + slept a) e2\<rparr>"
  have "reading (t_now ?t1 + slept a) e2 \<ge> t_now ?t1 + slept a"
    by (simp add: reading_def max_def)
  then have acc2: "\<not> t_now ?t2 - last_wake_ts ?st1 < real_of_int (WAKE_COOLDOWN cfg)"
    using a(2) assms(4) by (simp add: max_def split: if_splits)
  have p2: "published TOPIC_WAKE (snd (wake_iter cfg ?st1 ?t2)) = [WakeJson d2]"
    using wake_iter_publishes [of ?t2 d2 ?st1 cfg] acc2 assms(2) by (simp add: wake_init_def)
  show ?thesis
    using a p2
    by (cases "wake_iter cfg ?st1 ?t2")
       (auto simp: wake_run_def Let_def published_append split: sum.splits)
qed

text \<open>
  C4. The cooldown is tested on the clock reading taken when the loop reads an event
  (line 157), not on the time at which the event arrived. A wake event read less than
  \<open>WAKE_COOLDOWN\<close> after the last accepted one is dropped with no action at all and
  with the state, hence \<open>last_wake_ts\<close>, unchanged. But after an accepted wake the
  loop reads nothing until the pause of \<open>CAPTURE_SECS + 0.2\<close> seconds is over: where
  the cooldown is not longer than that pause, as with the defaults of 1 s and 3 s, the
  wake event that comes next is read outside the cooldown, however soon after the first
  it arrived, and both detections are published to \<open>wake/detected\<close>.
\<close>

theorem wake_inside_cooldown_published:
  "(t_event t = WakeEv d \<and> t_now t - last_wake_ts st < real_of_int (WAKE_COOLDOWN cfg)
      \<longrightarrow> wake_iter cfg st t = (Inr st, []))
   \<and> (t_event (e_tick e1) = WakeEv d1 \<and> t_event (e_tick e2) = WakeEv d2
        \<and> real_of_int (WAKE_COOLDOWN cfg) \<le> reading ready e1
        \<and> real_of_int (WAKE_COOLDOWN cfg) \<le> real_of_int (CAPTURE_SECS cfg) + 2 / 10
        \<and> t_pump (e_tick e1) \<noteq> PumpRaised \<and> t_respawn_ok (e_tick e1)
      \<longrightarrow> published TOPIC_WAKE (snd (snd (wake_run cfg (wake_init True) ready [e1, e2])))
            = [WakeJson d1, WakeJson d2])"
proof (intro conjI impI)
  assume "t_event t = WakeEv d \<and> t_now t - last_wake_ts st < real_of_int (WAKE_COOLDOWN cfg)"
  then show "wake_iter cfg st t = (Inr st, [])"
    by (simp add: wake_iter_def wake_suspend_def)
next
  assume "t_event (e_tick e1) = WakeEv d1 \<and> t_event (e_tick e2) = WakeEv d2
        \<and> real_of_int (WAKE_COOLDOWN cfg) \<le> reading ready e1
        \<and> real_of_int (WAKE_COOLDOWN cfg) \<le> real_of_int (CAPTURE_SECS cfg) + 2 / 10
        \<and> t_pump (e_tick e1) \<noteq> PumpRaised \<and> t_respawn_ok (e_tick e1)"
  then show "published TOPIC_WAKE (snd (snd (wake_run cfg (wake_init True) ready [e1, e2])))
      = [WakeJson d1, WakeJson d2]"
    using second_wake_published [of e1 d1 e2 d2 cfg ready] by blast
qed

theorem wake_inside_cooldown_published_witness:
  "wake_iter \<lparr>WAKE_COOLDOWN = 1, CAPTURE_SECS = 3\<rparr> \<lparr>last_wake_ts = 1000, mqtt_set = True\<rparr>
     \<lparr>t_event = WakeEv \<lparr>wd_name = Some (pystr_of ''ok_nabu''), wd_probability = None, wd_timestamp = Some 8\<rparr>,
      t_now = 2001 / 2, t_beep_ok = True, t_pump = PumpRunning, t_exits = ExitsOnTerminate,
      t_respawn_ok = True\<rparr>
   = (Inr \<lparr>last_wake_ts = 1000, mqtt_set = True\<rparr>, [])
   \<and> map t_now (timed_ticks \<lparr>WAKE_COOLDOWN = 1, CAPTURE_SECS = 3\<rparr> (wake_init True) 990
      [\<lparr>e_arrival = 1000, e_lag = 0,
        e_tick = \<lparr>t_event = WakeEv \<lparr>wd_name = Some (pystr_of ''ok_nabu''), wd_probability = None, wd_timestamp = Some 7\<rparr>,
          t_now = 0, t_beep_ok = True, t_pump = PumpRunning, t_exits = ExitsOnTerminate,
          t_respawn_ok = True\<rparr>\<rparr>,
       \<lparr>e_arrival = 2001 / 2, e_lag = 0,
        e_tick = \<lparr>t_event = WakeEv \<lparr>wd_name = Some (pystr_of ''ok_nabu''), wd_probability = None, wd_timestamp = Some 8\<rparr>,
          t_now = 0, t_beep_ok = True, t_pump = PumpRunning, t_exits = ExitsOnTerminate,
          t_respawn_ok = True\<rparr>\<rparr>])
     = [1000, 5016 / 5]
   \<and> published TOPIC_WAKE (snd (snd (wake_run \<lparr>WAKE_COOLDOWN = 1, CAPTURE_SECS = 3\<rparr> (wake_init True) 990
      [\<lparr>e_arrival = 1000, e_lag = 0,
        e_tick = \<lparr>t_event = WakeEv \<lparr>wd_name = Some (pystr_of ''ok_nabu''), wd_probability = None, wd_timestamp = Some 7\<rparr>,
          t_now = 0, t_beep_ok = True, t_pump = PumpRunning, t_exits = ExitsOnTerminate,
          t_respawn_ok = True\<rparr>\<rparr>,
       \<lparr>e_arrival = 2001 / 2, e_lag = 0,
        e_tick = \<lparr>t_event = WakeEv \<lparr>wd_name = Some (pystr_of ''ok_nabu''), wd_probability = None, wd_timestamp = Some 8\<rparr>,
          t_now = 0, t_beep_ok = True, t_pump = PumpRunning, t_exits = ExitsOnTerminate,
          t_respawn_ok = True\<rparr>\<rparr>])))
     = [WakeJson \<lparr>wd_name = Some (pystr_of ''ok_nabu''), wd_probability = None, wd_timestamp = Some 7\<rparr>,
        WakeJson \<lparr>wd_name = Some (pystr_of ''ok_nabu''), wd_probability = None, wd_timestamp = Some 8\<rparr>]"
  using wake_inside_cooldown_published
    [where cfg = "\<lparr>WAKE_COOLDOWN = 1, CAPTURE_SECS = 3\<rparr>"
       and st = "\<lparr>last_wake_ts = 1000, mqtt_set = True\<rparr>"
       and d = "\<lparr>wd_name = Some (pystr_of ''ok_nabu''), wd_probability = None, wd_timestamp = Some 8\<rparr>"
       and t = "\<lparr>t_event = WakeEv \<lparr>wd_name = Some (pystr_of ''ok_nabu''), wd_probability = None, wd_timestamp = Some 8\<rparr>,
      t_now = 2001 / 2, t_beep_ok = True, t_pump = PumpRunning, t_exits = ExitsOnTerminate,
      t_respawn_ok = True\<rparr>"
       and ready = 990
       and ?d1.0 = "\<lparr>wd_name = Some (pystr_of ''ok_nabu''), wd_probability = None, wd_timestamp = Some 7\<rparr>"
       and ?d2.0 = "\<lparr>wd_name = Some (pystr_of ''ok_nabu''), wd_probability = None, wd_timestamp = Some 8\<rparr>"
       and ?e1.0 = "\<lparr>e_arrival = 1000, e_lag = 0,
        e_tick = \<lparr>t_event = WakeEv \<lparr>wd_name = Some (pystr_of ''ok_nabu''), wd_probability = None, wd_timestamp = Some 7\<rparr>,
          t_now = 0, t_beep_ok = True, t_pump = PumpRunning, t_exits = ExitsOnTerminate,
          t_respawn_ok = True\<rparr>\<rparr>"
       and ?e2.0 = "\<lparr>e_arrival = 2001 / 2, e_lag = 0,
        e_tick = \<lparr>t_event = WakeEv \<lparr>wd_name = Some (pystr_of ''ok_nabu''), wd_probability = None, wd_timestamp = Some 8\<rparr>,
          t_now = 0, t_beep_ok = True, t_pump = PumpRunning, t_exits = ExitsOnTerminate,
          t_respawn_ok = True\<rparr>\<rparr>"]
  by (simp add: wake_defs wake_init_def wake_run_def reading_def)

text \<open>
  C2 as stated: on every accepted wake the pump task is cancelled and joined before any
  signal goes to the wake \<^verbatim>\<open>arecord\<close>, and the exit of that process is on record
  before the capture request is published. It fails where the process outlives both
  bounded waits of \<^verbatim>\<open>stop_arecord\<close>: the request is published all the same.
\<close>

theorem capture_request_without_exit_counterexample:
  "\<not> teardown_ordered True (snd (wake_iter \<lparr>WAKE_COOLDOWN = 1, CAPTURE_SECS = 3\<rparr>
       (wake_init True)
       \<lparr>t_event = WakeEv \<lparr>wd_name = None, wd_probability = None, wd_timestamp = None\<rparr>,
        t_now = 1000, t_beep_ok = True, t_pump = PumpRunning, t_exits = NeverExits,
        t_respawn_ok = True\<rparr>))
   \<and> published TOPIC_STT_CAP (snd (wake_iter \<lparr>WAKE_COOLDOWN = 1, CAPTURE_SECS = 3\<rparr>
       (wake_init True)
       \<lparr>t_event = WakeEv \<lparr>wd_name = None, wd_probability = None, wd_timestamp = None\<rparr>,
        t_now = 1000, t_beep_ok = True, t_pump = PumpRunning, t_exits = NeverExits,
        t_respawn_ok = True\<rparr>))
     = [PlainText (pystr_of ''3'')]"
  by (simp add: wake_defs wake_init_def teardown_ordered_def mon_step_def mon0_def
        py_str_int_def pystr_of_def)

text \<open>
  C2 as amended: in every run of the loop the pump task is cancelled and joined before any
  signal goes to the wake \<^verbatim>\<open>arecord\<close>, and the capture request is published only
  after \<^verbatim>\<open>stop_arecord\<close> has returned, that is after the exit was seen (or was on
  record already), or after terminate and kill were both sent and both bounded waits
  expired. Where every process exits within those waits, the exit is on record before
  each capture request.
\<close>

theorem teardown_before_capture_request:
  "teardown_ordered False (snd (snd (wake_loop cfg st ts)))
   \<and> ((\<forall>t \<in> set ts. t_exits t \<noteq> NeverExits)
        \<longrightarrow> teardown_ordered True (snd (snd (wake_loop cfg st ts))))"
  unfolding teardown_ordered_def
  using wake_loop_mon [of False ts cfg st] wake_loop_mon [of True ts cfg st] by simp

theorem teardown_before_capture_request_witness:
  "teardown_ordered False (snd (snd (wake_loop \<lparr>WAKE_COOLDOWN = 1, CAPTURE_SECS = 3\<rparr>
       (wake_init True)
       [\<lparr>t_event = WakeEv \<lparr>wd_name = None, wd_probability = None, wd_timestamp = None\<rparr>,
         t_now = 1000, t_beep_ok = True, t_pump = PumpRunning, t_exits = ExitsOnKill,
         t_respawn_ok = True\<rparr>])))
   \<and> teardown_ordered True (snd (snd (wake_loop \<lparr>WAKE_COOLDOWN = 1, CAPTURE_SECS = 3\<rparr>
       (wake_init True)
       [\<lparr>t_event = WakeEv \<lparr>wd_name = None, wd_probability = None, wd_timestamp = None\<rparr>,
         t_now = 1000, t_beep_ok = True, t_pump = PumpRunning, t_exits = ExitsOnKill,
         t_respawn_ok = True\<rparr>])))
   \<and> published TOPIC_STT_CAP (snd (snd (wake_loop \<lparr>WAKE_COOLDOWN = 1, CAPTURE_SECS = 3\<rparr>
       (wake_init True)
       [\<lparr>t_event = WakeEv \<lparr>wd_name = None, wd_probability = None, wd_timestamp = None\<rparr>,
         t_now = 1000, t_beep_ok = True, t_pump = PumpRunning, t_exits = ExitsOnKill,
         t_respawn_ok = True\<rparr>])))
     = [PlainText (pystr_of ''3'')]"
  using teardown_before_capture_request
    [of "\<lparr>WAKE_COOLDOWN = 1, CAPTURE_SECS = 3\<rparr>" "wake_init True"
        "[\<lparr>t_event = WakeEv \<lparr>wd_name = None, wd_probability = None, wd_timestamp = None\<rparr>,
          t_now = 1000, t_beep_ok = True, t_pump = PumpRunning, t_exits = ExitsOnKill,
          t_respawn_ok = True\<rparr>]"]
  by (simp add: wake_defs wake_init_def py_str_int_def pystr_of_def)

section \<open>Properties of the voice gateway\<close>

lemma strip_empty_iff: "strip s = [] \<longleftrightarrow> (\<forall>c \<in> set s. py_isspace c)"
proof
  assume "strip s = []"
  then have "dropWhile py_isspace (rev (dropWhile py_isspace s)) = []"
    by (simp add: strip_def)
  then have all: "\<forall>c \<in> set (dropWhile py_isspace s). py_isspace c"
    by (simp add: dropWhile_eq_Nil_conv)
  have "dropWhile py_isspace s = []"
  proof (cases "dropWhile py_isspace s")
    case Nil
    then show ?thesis .
  next
    case (Cons x xs)
    then have "\<not> py_isspace x" by (metis hd_dropWhile list.sel(1) list.distinct(1))
    with all Cons show ?thesis by simp
  qed
  then show "\<forall>c \<in> set s. py_isspace c"
    using dropWhile_eq_Nil_conv [of py_isspace s] by blast
next
  assume "\<forall>c \<in> set s. py_isspace c"
  then have "dropWhile py_isspace s = []"
    using dropWhile_eq_Nil_conv [of py_isspace s] by blast
  then show "strip s = []"
    unfolding strip_def by (simp only: rev.simps dropWhile.simps)
qed

lemma stt_pump_actions:
  "set (snd (stt_pump rs)) \<subseteq>
     {WriteAudioChunk SttService, Log ''STT: read timeout from arecord; stopping early.''}"
  by (induction rs rule: stt_pump.induct) (auto split: prod.splits)

lemma wait_transcript_actions: "set (snd (snd (wait_transcript dl ws))) \<subseteq> {Log ''STT: got''}"
  by (induction dl ws rule: wait_transcript.induct) (auto split: wait_step.splits)

lemma wait_transcript_skip:
  assumes "\<forall>p \<in> set pre. in_time dl p \<and> passed_over p"
  shows "wait_transcript dl (pre @ ws) = wait_transcript dl ws"
  using assms
  by (induction pre) (auto simp: in_time_def passed_over_def split: wait_step.splits)

lemma wait_transcript_none:
  assumes "\<forall>w \<in> set ws. qualifying w \<longrightarrow> \<not> w_arrives w < dl"
  shows "fst (snd (wait_transcript dl ws)) = None"
  using assms
  by (induction dl ws rule: wait_transcript.induct)
     (auto simp: qualifying_def text_or_def split: wait_step.splits option.splits)

lemma wait_transcript_some:
  assumes "fst (snd (wait_transcript dl ws)) = Some v"
  shows "\<exists>w \<in> set ws. \<exists>e. w_step w = Arrives e \<and> transcript_class e \<and> ev_text e = Some v
           \<and> py_truthy v \<and> w_arrives w < dl"
  using assms
  by (induction dl ws rule: wait_transcript.induct)
     (auto simp: text_or_def split: if_splits wait_step.splits option.splits)

text \<open>What a capture returns, in terms of the transcript wait.\<close>

lemma stt_once_transcript:
  assumes "fst (stt_once env secs) = Inr t"
  shows "t = fst (snd (wait_transcript (stt_deadline (s_t0 env) secs) (s_waits env)))"
  using assms
  by (auto simp: stt_once_def Let_def split: if_splits prod.splits option.splits)

lemma published_stt_done:
  "published TOPIC_STT_TEXT (fst (stt_done st secs res)) =
     (case res of
        Inr (Some v) \<Rightarrow> if py_truthy v then [TranscriptJson v secs] else []
      | _ \<Rightarrow> [])"
  by (auto simp: stt_done_def Let_def split: sum.splits option.splits)

lemma published_stt_once: "published tp (snd (stt_once env secs)) = []"
proof -
  have pump: "published tp (snd (stt_pump rs)) = []" for rs
    by (induction rs rule: stt_pump.induct) (auto split: prod.splits)
  have wait: "published tp (snd (snd (wait_transcript dl ws))) = []" for dl ws
    by (induction dl ws rule: wait_transcript.induct) (auto split: wait_step.splits)
  have pump': "stt_pump rs = (e, a) \<Longrightarrow> published tp a = []" for rs e a
    using pump [of rs] by simp
  have wait': "wait_transcript dl ws = (e, t, a) \<Longrightarrow> published tp a = []" for dl ws e t a
    using wait [of dl ws] by simp
  show ?thesis
    by (auto simp: stt_once_def Let_def published_append communicate_def pump' wait'
        split: if_splits prod.splits option.splits)
qed

lemma published_capture_session:
  "published TOPIC_STT_TEXT (fst (capture_session st env secs)) =
     (case fst (stt_once env secs) of
        Inr (Some v) \<Rightarrow> if py_truthy v then [TranscriptJson v secs] else []
      | _ \<Rightarrow> [])"
proof -
  obtain res a where once: "stt_once env secs = (res, a)"
    by (cases "stt_once env secs")
  obtain b st' where cb: "stt_done st secs res = (b, st')"
    by (cases "stt_done st secs res")
  have "published TOPIC_STT_TEXT a = []"
    using published_stt_once [of TOPIC_STT_TEXT env secs] once by simp
  moreover have "published TOPIC_STT_TEXT b =
      (case res of
         Inr (Some v) \<Rightarrow> if py_truthy v then [TranscriptJson v secs] else []
       | _ \<Rightarrow> [])"
    using published_stt_done [of st secs res] cb by simp
  ultimately show ?thesis
    using once cb by (simp add: capture_session_def published_append)
qed

lemma capture_session_clears: "\<not> stt_busy (snd (capture_session st env secs))"
  by (simp add: capture_session_def stt_done_def Let_def split: prod.splits sum.splits)

lemma stt_once_success:
  assumes "reaches_wait env" "s_disconnect_ok env"
    and "wait_transcript (stt_deadline (s_t0 env) secs) (s_waits env) = (None, t, a)"
  shows "fst (stt_once env secs) = Inr t"
  using assms
  by (auto simp: stt_once_def reaches_wait_def Let_def split: prod.splits option.splits)

text \<open>
  \<^verbatim>\<open>stt_once\<close> creates its process first, and does nothing about it when it raises: the
  wait for its exit is on the returning path only.
\<close>

lemma stt_once_spawns_first:
  assumes "s_spawn_ok env"
  shows "\<exists>rest. snd (stt_once env secs)
           = Log ''STT: starting capture:'' # Spawn (SttArecord secs) # rest"
  using assms
  by (auto simp: stt_once_def Let_def split: prod.splits option.splits)

lemma stt_once_raises_unstopped:
  assumes "fst (stt_once env secs) = Inl e"
  shows "\<not> capture_stopped secs (snd (stt_once env secs))"
proof -
  obtain pe ap where pump: "stt_pump (s_reads env) = (pe, ap)"
    by (cases "stt_pump (s_reads env)")
  obtain we t aw where wait:
    "wait_transcript (stt_deadline (s_t0 env) secs) (s_waits env) = (we, t, aw)"
    by (cases "wait_transcript (stt_deadline (s_t0 env) secs) (s_waits env)")
  have ap: "Terminate p \<notin> set ap" "Kill p \<notin> set ap" "WaitExit p b \<notin> set ap" for p b
    using stt_pump_actions [of "s_reads env"] pump by auto
  have aw: "Terminate p \<notin> set aw" "Kill p \<notin> set aw" "WaitExit p b \<notin> set aw" for p b
    using wait_transcript_actions [of "stt_deadline (s_t0 env) secs" "s_waits env"] wait
    by auto
  show ?thesis
    using assms pump wait ap aw
    by (auto simp: stt_once_def capture_stopped_def Let_def split: option.splits if_splits)
qed




lemmas stt_eval =
  stt_once_def capture_session_def stt_done_def communicate_def stt_deadline_def
  transcript_class_def text_or_def strip_def py_isspace_def pystr_of_def Let_def







text \<open>
  C6 as stated: if an event of type \<^verbatim>\<open>transcript\<close> or \<^verbatim>\<open>text\<close> arrives before
  the deadline, the text and the duration are published to \<open>stt/text\<close>. It fails
  where that event carries an empty text, and it fails where the event carries a text
  and \<^verbatim>\<open>disconnect\<close> raises in the \<^verbatim>\<open>finally\<close> of the wait: in both runs the
  event is read in time and nothing is published.
\<close>

theorem transcript_in_time_unpublished_counterexample:
  "wait_transcript (stt_deadline 1000 3)
      [\<lparr>w_now = 1001, w_arrives = 1001, w_step = Arrives \<lparr>ev_type = ''info'', ev_text = None\<rparr>\<rparr>,
       \<lparr>w_now = 1002, w_arrives = 1002, w_step = Arrives \<lparr>ev_type = ''text'', ev_text = Some (JString [])\<rparr>\<rparr>,
       \<lparr>w_now = 1002, w_arrives = 1002, w_step = Arrives \<lparr>ev_type = ''transcript'', ev_text = Some (JString (pystr_of ''hello''))\<rparr>\<rparr>]
   = (None, None, [Log ''STT: got''])
   \<and> published TOPIC_STT_TEXT (fst (capture_session \<lparr>stt_busy = True\<rparr>
     \<lparr>s_spawn_ok = True, s_connect_ok = True, s_start_ok = True,
    s_reads = [Chunk True, Chunk True], s_stop_ok = True, s_t0 = 1000,
    s_waits = [\<lparr>w_now = 1001, w_arrives = 1001, w_step = Arrives \<lparr>ev_type = ''info'', ev_text = None\<rparr>\<rparr>,
       \<lparr>w_now = 1002, w_arrives = 1002, w_step = Arrives \<lparr>ev_type = ''text'', ev_text = Some (JString [])\<rparr>\<rparr>,
       \<lparr>w_now = 1002, w_arrives = 1002, w_step = Arrives \<lparr>ev_type = ''transcript'', ev_text = Some (JString (pystr_of ''hello''))\<rparr>\<rparr>],
    s_disconnect_ok = True, s_communicate = Some False\<rparr> 3))
   = []
   \<and> wait_transcript (stt_deadline 1000 3)
      [\<lparr>w_now = 1001, w_arrives = 1001, w_step = Arrives \<lparr>ev_type = ''info'', ev_text = None\<rparr>\<rparr>,
       \<lparr>w_now = 1002, w_arrives = 1002, w_step = Arrives \<lparr>ev_type = ''transcript'', ev_text = Some (JString (pystr_of ''hello''))\<rparr>\<rparr>]
   = (None, Some (JString (pystr_of ''hello'')), [Log ''STT: got''])
   \<and> capture_session \<lparr>stt_busy = True\<rparr>
     \<lparr>s_spawn_ok = True, s_connect_ok = True, s_start_ok = True,
    s_reads = [Chunk True, Chunk True], s_stop_ok = True, s_t0 = 1000,
    s_waits = [\<lparr>w_now = 1001, w_arrives = 1001, w_step = Arrives \<lparr>ev_type = ''info'', ev_text = None\<rparr>\<rparr>,
       \<lparr>w_now = 1002, w_arrives = 1002, w_step = Arrives \<lparr>ev_type = ''transcript'', ev_text = Some (JString (pystr_of ''hello''))\<rparr>\<rparr>],
    s_disconnect_ok = False, s_communicate = Some False\<rparr> 3
   = ([Log ''STT: starting capture:'', Spawn (SttArecord 3), Connect SttService,
       WriteAudioStart SttService, WriteAudioChunk SttService, WriteAudioChunk SttService,
       WriteAudioStop SttService, Log ''STT: got'', Disconnect SttService, Log ''STT error:''],
      \<lparr>stt_busy = False\<rparr>)"
  by (simp add: stt_eval)

text \<open>
  C6 as amended: when the capture gets as far as the transcript wait, the first event of
  type \<^verbatim>\<open>transcript\<close> or \<^verbatim>\<open>text\<close> is read before the deadline
  \<open>t0 + max 6 (secs + 3)\<close> and carries a text that passes the truth test, and
  \<^verbatim>\<open>disconnect\<close> does not raise, that text and the duration are published to
  \<open>stt/text\<close>. When no event of these types with such a text arrives before the
  deadline, nothing is published to \<open>stt/text\<close> and the busy flag is cleared; when
  the wait expires, \<^verbatim>\<open>stt_once\<close> raises \<^verbatim>\<open>TimeoutError\<close>, and whatever it
  raises the callback logs and goes on to clear the flag: nothing is raised further, and
  the capture process has been neither signalled nor seen to exit.
\<close>

theorem transcript_published_or_nothing:
  "(reaches_wait env \<and> s_disconnect_ok env \<and> s_waits env = pre @ w # rest
      \<and> (\<forall>p \<in> set pre. in_time (stt_deadline (s_t0 env) secs) p \<and> passed_over p)
      \<and> in_time (stt_deadline (s_t0 env) secs) w \<and> w_step w = Arrives e
      \<and> transcript_class e \<and> ev_text e = Some v \<and> py_truthy v
      \<longrightarrow> published TOPIC_STT_TEXT (fst (capture_session st env secs)) = [TranscriptJson v secs])
   \<and> ((\<forall>w \<in> set (s_waits env). qualifying w \<longrightarrow> \<not> w_arrives w < stt_deadline (s_t0 env) secs)
      \<longrightarrow> published TOPIC_STT_TEXT (fst (capture_session st env secs)) = []
          \<and> \<not> stt_busy (snd (capture_session st env secs)))
   \<and> (reaches_wait env \<and> s_disconnect_ok env \<and> s_waits env = pre @ rest
      \<and> (\<forall>p \<in> set pre. in_time (stt_deadline (s_t0 env) secs) p \<and> passed_over p)
      \<and> (rest = [] \<or> w_now (hd rest) < stt_deadline (s_t0 env) secs
                       \<and> stt_deadline (s_t0 env) secs \<le> w_arrives (hd rest))
      \<longrightarrow> fst (stt_once env secs) = Inl TimeoutError)
   \<and> (fst (stt_once env secs) = Inl err
      \<longrightarrow> capture_session st env secs
            = (snd (stt_once env secs) @ [Log ''STT error:''], st\<lparr>stt_busy := False\<rparr>)
          \<and> \<not> capture_stopped secs (snd (stt_once env secs)))
   \<and> stt_deadline t0 secs - t0 = real_of_int (max 6 (secs + 3))"
proof (intro conjI impI)
  assume h: "reaches_wait env \<and> s_disconnect_ok env \<and> s_waits env = pre @ w # rest
      \<and> (\<forall>p \<in> set pre. in_time (stt_deadline (s_t0 env) secs) p \<and> passed_over p)
      \<and> in_time (stt_deadline (s_t0 env) secs) w \<and> w_step w = Arrives e
      \<and> transcript_class e \<and> ev_text e = Some v \<and> py_truthy v"
  then have "wait_transcript (stt_deadline (s_t0 env) secs) (s_waits env)
      = wait_transcript (stt_deadline (s_t0 env) secs) (w # rest)"
    using wait_transcript_skip [of pre "stt_deadline (s_t0 env) secs" "w # rest"] by simp
  also have "\<dots> = (None, Some v, [Log ''STT: got''])"
    using h by (simp add: in_time_def text_or_def)
  finally have "fst (stt_once env secs) = Inr (Some v)"
    using h stt_once_success [of env secs "Some v" "[Log ''STT: got'']"] by simp
  then show "published TOPIC_STT_TEXT (fst (capture_session st env secs)) = [TranscriptJson v secs]"
    using h by (simp add: published_capture_session)
next
  assume h: "\<forall>w \<in> set (s_waits env). qualifying w \<longrightarrow> \<not> w_arrives w < stt_deadline (s_t0 env) secs"
  have none: "fst (snd (wait_transcript (stt_deadline (s_t0 env) secs) (s_waits env))) = None"
    using wait_transcript_none [OF h] .
  have "fst (stt_once env secs) \<noteq> Inr (Some s')" for s'
    using stt_once_transcript [of env secs "Some s'"] none by auto
  then show "published TOPIC_STT_TEXT (fst (capture_session st env secs)) = []"
    by (auto simp: published_capture_session split: sum.splits option.splits)
  show "\<not> stt_busy (snd (capture_session st env secs))"
    by (rule capture_session_clears)
next
  assume h: "reaches_wait env \<and> s_disconnect_ok env \<and> s_waits env = pre @ rest
      \<and> (\<forall>p \<in> set pre. in_time (stt_deadline (s_t0 env) secs) p \<and> passed_over p)
      \<and> (rest = [] \<or> w_now (hd rest) < stt_deadline (s_t0 env) secs
                       \<and> stt_deadline (s_t0 env) secs \<le> w_arrives (hd rest))"
  then have skip: "wait_transcript (stt_deadline (s_t0 env) secs) (s_waits env)
      = wait_transcript (stt_deadline (s_t0 env) secs) rest"
    using wait_transcript_skip [of pre "stt_deadline (s_t0 env) secs" rest] by simp
  have "wait_transcript (stt_deadline (s_t0 env) secs) rest = (Some TimeoutError, None, [])"
    using h by (cases rest) auto
  with skip h show "fst (stt_once env secs) = Inl TimeoutError"
    by (auto simp: stt_once_def reaches_wait_def Let_def split: prod.splits option.splits)
next
  assume raised: "fst (stt_once env secs) = Inl err"
  then show "capture_session st env secs
      = (snd (stt_once env secs) @ [Log ''STT error:''], st\<lparr>stt_busy := False\<rparr>)"
    by (cases "stt_once env secs") (auto simp: capture_session_def stt_done_def Let_def)
  show "\<not> capture_stopped secs (snd (stt_once env secs))"
    using stt_once_raises_unstopped [OF raised] .
next
  show "stt_deadline t0 secs - t0 = real_of_int (max 6 (secs + 3))"
    by (simp add: stt_deadline_def)
qed

theorem transcript_published_or_nothing_witness:
  "published TOPIC_STT_TEXT (fst (capture_session \<lparr>stt_busy = True\<rparr>
     \<lparr>s_spawn_ok = True, s_connect_ok = True, s_start_ok = True,
    s_reads = [Chunk True, Chunk True], s_stop_ok = True, s_t0 = 1000,
    s_waits = [\<lparr>w_now = 1001, w_arrives = 1001, w_step = Arrives \<lparr>ev_type = ''info'', ev_text = None\<rparr>\<rparr>,
       \<lparr>w_now = 1002, w_arrives = 1002, w_step = Arrives \<lparr>ev_type = ''transcript'', ev_text = Some (JString (pystr_of ''hello''))\<rparr>\<rparr>],
    s_disconnect_ok = True, s_communicate = Some False\<rparr> 3))
   = [TranscriptJson (JString (pystr_of ''hello'')) 3]
   \<and> published TOPIC_STT_TEXT (fst (capture_session \<lparr>stt_busy = True\<rparr>
     \<lparr>s_spawn_ok = True, s_connect_ok = True, s_start_ok = True,
    s_reads = [Chunk True, Chunk True], s_stop_ok = True, s_t0 = 1000,
    s_waits = [\<lparr>w_now = 1001, w_arrives = 1001, w_step = Arrives \<lparr>ev_type = ''info'', ev_text = None\<rparr>\<rparr>,
       \<lparr>w_now = 1002, w_arrives = 1007, w_step = Arrives \<lparr>ev_type = ''transcript'', ev_text = Some (JString (pystr_of ''hello''))\<rparr>\<rparr>],
    s_disconnect_ok = True, s_communicate = Some False\<rparr> 3))
   = []
   \<and> capture_session \<lparr>stt_busy = True\<rparr>
     \<lparr>s_spawn_ok = True, s_connect_ok = True, s_start_ok = True,
    s_reads = [Chunk True, Chunk True], s_stop_ok = True, s_t0 = 1000,
    s_waits = [\<lparr>w_now = 1001, w_arrives = 1001, w_step = Arrives \<lparr>ev_type = ''info'', ev_text = None\<rparr>\<rparr>,
       \<lparr>w_now = 1002, w_arrives = 1007, w_step = Arrives \<lparr>ev_type = ''transcript'', ev_text = Some (JString (pystr_of ''hello''))\<rparr>\<rparr>],
    s_disconnect_ok = True, s_communicate = Some False\<rparr> 3
   = ([Log ''STT: starting capture:'', Spawn (SttArecord 3), Connect SttService,
       WriteAudioStart SttService, WriteAudioChunk SttService, WriteAudioChunk SttService,
       WriteAudioStop SttService, Disconnect SttService, Log ''STT error:''],
      \<lparr>stt_busy = False\<rparr>)"
  using transcript_published_or_nothing
    [where env = "\<lparr>s_spawn_ok = True, s_connect_ok = True, s_start_ok = True,
    s_reads = [Chunk True, Chunk True], s_stop_ok = True, s_t0 = 1000,
    s_waits = [\<lparr>w_now = 1001, w_arrives = 1001, w_step = Arrives \<lparr>ev_type = ''info'', ev_text = None\<rparr>\<rparr>,
       \<lparr>w_now = 1002, w_arrives = 1002, w_step = Arrives \<lparr>ev_type = ''transcript'', ev_text = Some (JString (pystr_of ''hello''))\<rparr>\<rparr>],
    s_disconnect_ok = True, s_communicate = Some False\<rparr>"
       and secs = 3 and st = "\<lparr>stt_busy = True\<rparr>"
       and pre = "[\<lparr>w_now = 1001, w_arrives = 1001, w_step = Arrives \<lparr>ev_type = ''info'', ev_text = None\<rparr>\<rparr>]"
       and w = "\<lparr>w_now = 1002, w_arrives = 1002, w_step = Arrives \<lparr>ev_type = ''transcript'', ev_text = Some (JString (pystr_of ''hello''))\<rparr>\<rparr>"
       and rest = "[]" and e = "\<lparr>ev_type = ''transcript'', ev_text = Some (JString (pystr_of ''hello''))\<rparr>"
       and v = "JString (pystr_of ''hello'')"]
    transcript_published_or_nothing
    [where env = "\<lparr>s_spawn_ok = True, s_connect_ok = True, s_start_ok = True,
    s_reads = [Chunk True, Chunk True], s_stop_ok = True, s_t0 = 1000,
    s_waits = [\<lparr>w_now = 1001, w_arrives = 1001, w_step = Arrives \<lparr>ev_type = ''info'', ev_text = None\<rparr>\<rparr>,
       \<lparr>w_now = 1002, w_arrives = 1007, w_step = Arrives \<lparr>ev_type = ''transcript'', ev_text = Some (JString (pystr_of ''hello''))\<rparr>\<rparr>],
    s_disconnect_ok = True, s_communicate = Some False\<rparr>"
       and secs = 3 and st = "\<lparr>stt_busy = True\<rparr>"
       and pre = "[\<lparr>w_now = 1001, w_arrives = 1001, w_step = Arrives \<lparr>ev_type = ''info'', ev_text = None\<rparr>\<rparr>]"
       and rest = "[\<lparr>w_now = 1002, w_arrives = 1007, w_step = Arrives \<lparr>ev_type = ''transcript'', ev_text = Some (JString (pystr_of ''hello''))\<rparr>\<rparr>]"
       and err = TimeoutError]
  by (simp add: stt_eval reaches_wait_def in_time_def passed_over_def qualifying_def
        capture_stopped_def)

text \<open>
  C10 as stated: a capture publishes to \<open>stt/text\<close> only when the recognizer
  returned an event of type \<^verbatim>\<open>transcript\<close> or \<^verbatim>\<open>text\<close> whose text is a non-empty
  string. It fails for a text that is not a string: the number 42 passes the truth test
  of \<^verbatim>\<open>data.get("text") or transcript\<close> and of \<^verbatim>\<open>if txt\<close>, and is published.
\<close>

theorem number_published_counterexample:
  "published TOPIC_STT_TEXT (fst (capture_session \<lparr>stt_busy = True\<rparr>
     \<lparr>s_spawn_ok = True, s_connect_ok = True, s_start_ok = True,
    s_reads = [Chunk True, Chunk True], s_stop_ok = True, s_t0 = 1000,
    s_waits = [\<lparr>w_now = 1001, w_arrives = 1001, w_step = Arrives \<lparr>ev_type = ''info'', ev_text = None\<rparr>\<rparr>,
       \<lparr>w_now = 1002, w_arrives = 1002, w_step = Arrives \<lparr>ev_type = ''transcript'', ev_text = Some (JNumber 42)\<rparr>\<rparr>],
    s_disconnect_ok = True, s_communicate = Some False\<rparr> 3))
   = [TranscriptJson (JNumber 42) 3]"
  by (simp add: stt_eval)

text \<open>
  C10 as amended: whenever a capture publishes to \<open>stt/text\<close>, the recognizer sent
  an event of type \<^verbatim>\<open>transcript\<close> or \<^verbatim>\<open>text\<close> whose text passes the truth test
  of Python (a non-empty string, or a value of another type that is not null, false, zero
  or empty), and that value is what is published. An event of one of these types whose
  text is missing or fails the truth test ends the wait, whatever follows it, and nothing
  is published.
\<close>

theorem publish_needs_truthy_text:
  "(published TOPIC_STT_TEXT (fst (capture_session st env secs)) \<noteq> []
      \<longrightarrow> (\<exists>w \<in> set (s_waits env). \<exists>e v.
             w_step w = Arrives e \<and> transcript_class e \<and> ev_text e = Some v \<and> py_truthy v
             \<and> published TOPIC_STT_TEXT (fst (capture_session st env secs))
                 = [TranscriptJson v secs]))
   \<and> (s_waits env = pre @ w # rest
      \<and> (\<forall>p \<in> set pre. in_time (stt_deadline (s_t0 env) secs) p \<and> passed_over p)
      \<and> in_time (stt_deadline (s_t0 env) secs) w \<and> w_step w = Arrives e
      \<and> transcript_class e \<and> (ev_text e = None \<or> (\<exists>v. ev_text e = Some v \<and> \<not> py_truthy v))
      \<longrightarrow> wait_transcript (stt_deadline (s_t0 env) secs) (s_waits env)
            = (None, None, [Log ''STT: got''])
          \<and> published TOPIC_STT_TEXT (fst (capture_session st env secs)) = [])"
proof (intro conjI impI)
  assume h: "published TOPIC_STT_TEXT (fst (capture_session st env secs)) \<noteq> []"
  then obtain v where res: "fst (stt_once env secs) = Inr (Some v)" and v: "py_truthy v"
    by (auto simp: published_capture_session split: sum.splits option.splits if_splits)
  from res have "fst (snd (wait_transcript (stt_deadline (s_t0 env) secs) (s_waits env))) = Some v"
    using stt_once_transcript [of env secs "Some v"] by simp
  then obtain w e where "w \<in> set (s_waits env)" "w_step w = Arrives e" "transcript_class e"
      "ev_text e = Some v"
    using wait_transcript_some by blast
  moreover have "published TOPIC_STT_TEXT (fst (capture_session st env secs)) = [TranscriptJson v secs]"
    using res v by (simp add: published_capture_session)
  ultimately show "\<exists>w \<in> set (s_waits env). \<exists>e v.
             w_step w = Arrives e \<and> transcript_class e \<and> ev_text e = Some v \<and> py_truthy v
             \<and> published TOPIC_STT_TEXT (fst (capture_session st env secs))
                 = [TranscriptJson v secs]"
    using v by blast
next
  assume h: "s_waits env = pre @ w # rest
      \<and> (\<forall>p \<in> set pre. in_time (stt_deadline (s_t0 env) secs) p \<and> passed_over p)
      \<and> in_time (stt_deadline (s_t0 env) secs) w \<and> w_step w = Arrives e
      \<and> transcript_class e \<and> (ev_text e = None \<or> (\<exists>v. ev_text e = Some v \<and> \<not> py_truthy v))"
  then have "wait_transcript (stt_deadline (s_t0 env) secs) (s_waits env)
      = wait_transcript (stt_deadline (s_t0 env) secs) (w # rest)"
    using wait_transcript_skip [of pre "stt_deadline (s_t0 env) secs" "w # rest"] by simp
  also have "\<dots> = (None, None, [Log ''STT: got''])"
    using h by (auto simp: in_time_def text_or_def)
  finally show ended: "wait_transcript (stt_deadline (s_t0 env) secs) (s_waits env)
      = (None, None, [Log ''STT: got''])" .
  have "fst (stt_once env secs) \<noteq> Inr (Some s')" for s'
    using stt_once_transcript [of env secs "Some s'"] ended by auto
  then show "published TOPIC_STT_TEXT (fst (capture_session st env secs)) = []"
    by (auto simp: published_capture_session split: sum.splits option.splits)
qed

theorem publish_needs_truthy_text_witness:
  "published TOPIC_STT_TEXT (fst (capture_session \<lparr>stt_busy = True\<rparr>
     \<lparr>s_spawn_ok = True, s_connect_ok = True, s_start_ok = True,
    s_reads = [Chunk True, Chunk True], s_stop_ok = True, s_t0 = 1000,
    s_waits = [\<lparr>w_now = 1001, w_arrives = 1001, w_step = Arrives \<lparr>ev_type = ''info'', ev_text = None\<rparr>\<rparr>,
       \<lparr>w_now = 1002, w_arrives = 1002, w_step = Arrives \<lparr>ev_type = ''transcript'', ev_text = Some (JString (pystr_of ''hello''))\<rparr>\<rparr>],
    s_disconnect_ok = True, s_communicate = Some False\<rparr> 3))
   = [TranscriptJson (JString (pystr_of ''hello'')) 3]
   \<and> wait_transcript 1006
      [\<lparr>w_now = 1002, w_arrives = 1002, w_step = Arrives \<lparr>ev_type = ''transcript'', ev_text = Some JNull\<rparr>\<rparr>,
       \<lparr>w_now = 1002, w_arrives = 1002, w_step = Arrives \<lparr>ev_type = ''transcript'', ev_text = Some (JString (pystr_of ''hello''))\<rparr>\<rparr>]
     = (None, None, [Log ''STT: got''])
   \<and> published TOPIC_STT_TEXT (fst (capture_session \<lparr>stt_busy = True\<rparr>
     \<lparr>s_spawn_ok = True, s_connect_ok = True, s_start_ok = True,
    s_reads = [Chunk True, Chunk True], s_stop_ok = True, s_t0 = 1000,
    s_waits = [\<lparr>w_now = 1002, w_arrives = 1002, w_step = Arrives \<lparr>ev_type = ''transcript'', ev_text = Some JNull\<rparr>\<rparr>,
       \<lparr>w_now = 1002, w_arrives = 1002, w_step = Arrives \<lparr>ev_type = ''transcript'', ev_text = Some (JString (pystr_of ''hello''))\<rparr>\<rparr>],
    s_disconnect_ok = True, s_communicate = Some False\<rparr> 3))
   = []"
  using publish_needs_truthy_text
    [where env = "\<lparr>s_spawn_ok = True, s_connect_ok = True, s_start_ok = True,
    s_reads = [Chunk True, Chunk True], s_stop_ok = True, s_t0 = 1000,
    s_waits = [\<lparr>w_now = 1001, w_arrives = 1001, w_step = Arrives \<lparr>ev_type = ''info'', ev_text = None\<rparr>\<rparr>,
       \<lparr>w_now = 1002, w_arrives = 1002, w_step = Arrives \<lparr>ev_type = ''transcript'', ev_text = Some (JString (pystr_of ''hello''))\<rparr>\<rparr>],
    s_disconnect_ok = True, s_communicate = Some False\<rparr>"
       and secs = 3 and st = "\<lparr>stt_busy = True\<rparr>"]
    publish_needs_truthy_text
    [where env = "\<lparr>s_spawn_ok = True, s_connect_ok = True, s_start_ok = True,
    s_reads = [Chunk True, Chunk True], s_stop_ok = True, s_t0 = 1000,
    s_waits = [\<lparr>w_now = 1002, w_arrives = 1002, w_step = Arrives \<lparr>ev_type = ''transcript'', ev_text = Some JNull\<rparr>\<rparr>,
       \<lparr>w_now = 1002, w_arrives = 1002, w_step = Arrives \<lparr>ev_type = ''transcript'', ev_text = Some (JString (pystr_of ''hello''))\<rparr>\<rparr>],
    s_disconnect_ok = True, s_communicate = Some False\<rparr>"
       and secs = 3 and st = "\<lparr>stt_busy = True\<rparr>"
       and pre = "[]"
       and w = "\<lparr>w_now = 1002, w_arrives = 1002, w_step = Arrives \<lparr>ev_type = ''transcript'', ev_text = Some JNull\<rparr>\<rparr>"
       and rest = "[\<lparr>w_now = 1002, w_arrives = 1002, w_step = Arrives \<lparr>ev_type = ''transcript'', ev_text = Some (JString (pystr_of ''hello''))\<rparr>\<rparr>]"
       and e = "\<lparr>ev_type = ''transcript'', ev_text = Some JNull\<rparr>"]
  by (simp add: stt_eval in_time_def passed_over_def)
section \<open>Properties of the playback path\<close>

text \<open>
  C7. A message on \<open>tts/say\<close> whose decoded payload is empty or made of whitespace
  only starts a thread that does nothing: after the log line and the start of the thread
  there is no action, so no connection to the synthesis service, no synthesis request and
  no playback process.
\<close>

theorem whitespace_tts_is_noop:
  "m_topic m = TOPIC_TTS_SAY \<and> (\<forall>c \<in> set (m_text m). py_isspace c)
   \<longrightarrow> handle_message cfg st env m = [Log ''MQTT:'', StartThread]
       \<and> tts_play_48k env (strip (m_text m)) = (None, [])
       \<and> spawned (handle_message cfg st env m) = []
       \<and> Connect TtsService \<notin> set (handle_message cfg st env m)
       \<and> WriteSynthesize txt \<notin> set (handle_message cfg st env m)"
proof
  assume h: "m_topic m = TOPIC_TTS_SAY \<and> (\<forall>c \<in> set (m_text m). py_isspace c)"
  then have empty: "strip (m_text m) = []"
    using strip_empty_iff [of "m_text m"] by blast
  have run: "handle_message cfg st env m = [Log ''MQTT:'', StartThread]"
    using h empty by (simp add: handle_message_def on_message_def tts_play_48k_def Let_def)
  show "handle_message cfg st env m = [Log ''MQTT:'', StartThread]
       \<and> tts_play_48k env (strip (m_text m)) = (None, [])
       \<and> spawned (handle_message cfg st env m) = []
       \<and> Connect TtsService \<notin> set (handle_message cfg st env m)
       \<and> WriteSynthesize txt \<notin> set (handle_message cfg st env m)"
    using empty by (simp add: run tts_play_48k_def)
qed

theorem whitespace_tts_is_noop_witness:
  "handle_message \<lparr>STT_SECS_DEFAULT = 3\<rparr> \<lparr>stt_busy = False\<rparr>
     \<lparr>x_connect_ok = True, x_write_ok = True,
       x_events = [AudioStartEv \<lparr>af_rate = 22050, af_width = 2, af_channels = 2\<rparr>, AudioChunkEv [1, 2, 3, 4], AudioStopEv],
       x_disconnect_ok = True, x_aplay = AplayPlays\<rparr>
     \<lparr>m_topic = TOPIC_TTS_SAY, m_text = [32, 9, 160, 8195, 10], m_float = None\<rparr>
   = [Log ''MQTT:'', StartThread]
   \<and> spawned (handle_message \<lparr>STT_SECS_DEFAULT = 3\<rparr> \<lparr>stt_busy = False\<rparr>
     \<lparr>x_connect_ok = True, x_write_ok = True,
       x_events = [AudioStartEv \<lparr>af_rate = 22050, af_width = 2, af_channels = 2\<rparr>, AudioChunkEv [1, 2, 3, 4], AudioStopEv],
       x_disconnect_ok = True, x_aplay = AplayPlays\<rparr>
     \<lparr>m_topic = TOPIC_TTS_SAY, m_text = pystr_of '' hi '', m_float = None\<rparr>)
   = [Aplay]"
  using whitespace_tts_is_noop
    [where cfg = "\<lparr>STT_SECS_DEFAULT = 3\<rparr>" and st = "\<lparr>stt_busy = False\<rparr>"
       and env = "\<lparr>x_connect_ok = True, x_write_ok = True,
       x_events = [AudioStartEv \<lparr>af_rate = 22050, af_width = 2, af_channels = 2\<rparr>, AudioChunkEv [1, 2, 3, 4], AudioStopEv],
       x_disconnect_ok = True, x_aplay = AplayPlays\<rparr>"
       and m = "\<lparr>m_topic = TOPIC_TTS_SAY, m_text = [32, 9, 160, 8195, 10], m_float = None\<rparr>"]
  by (simp add: handle_message_def on_message_def tts_play_48k_def synth_def aplay_def
        to_wav_48k_def audioop_tomono_def audioop_lin2lin_def audioop_ratecv_def c_int_def
        width_ok_def int_or_def strip_def py_isspace_def pystr_of_def Let_def)

text \<open>
  The transform: what a container it returns looks like, when it raises, and an input
  for which it does not.
\<close>

lemmas audioop_defs = audioop_tomono_def audioop_lin2lin_def audioop_ratecv_def

lemma to_wav_48k_header:
  assumes "to_wav_48k fmt bs = Inr w"
  shows "nchannels w = 1 \<and> sampwidth w = 2 \<and> framerate w = 48000"
  using assms
  by (auto simp: to_wav_48k_def Let_def split: sum.splits if_splits)

lemma to_wav_48k_downmixed:
  assumes "to_wav_48k fmt bs = Inr w"
  shows "downmixed (frames w) \<longleftrightarrow> int_or (af_channels fmt) 1 = 2"
  using assms
  by (auto simp: to_wav_48k_def audioop_defs Let_def split: sum.splits if_splits)

lemma to_wav_48k_faithful:
  assumes "to_wav_48k fmt bs = Inr w"
    and "int_or (af_channels fmt) 1 = 1 \<or> int_or (af_channels fmt) 1 = 2"
  shows "wav_faithful (source_layout fmt) w"
  using assms
  by (auto simp: to_wav_48k_def audioop_defs source_layout_def wav_faithful_def width_ok_def
        Let_def split: sum.splits if_splits)

lemma to_wav_48k_errors:
  assumes "to_wav_48k fmt bs = Inl e"
  shows "e = AudioopError \<or> e = OverflowError"
  using assms
  by (auto simp: to_wav_48k_def audioop_defs Let_def split: sum.splits if_splits)

lemma whole_frames_mono:
  fixes n w :: int
  assumes "1 \<le> w" "n mod (w * 2) = 0"
  shows "n mod w = 0 \<and> (n div w) mod 2 = 0 \<and> (n div 2) mod w = 0"
proof -
  from assms obtain k where k: "n = w * 2 * k" by (metis mod_eq_0_iff_dvd dvd_def)
  with assms show ?thesis by simp
qed

lemma to_wav_48k_defined:
  assumes ch: "int_or (af_channels fmt) 1 = 1 \<or> int_or (af_channels fmt) 1 = 2"
    and w: "width_ok (int_or (af_width fmt) 2)"
    and r: "0 < int_or (af_rate fmt) 16000" "c_int (int_or (af_rate fmt) 16000)"
    and len: "int (length bs) mod (int_or (af_width fmt) 2 * int_or (af_channels fmt) 1) = 0"
  shows "\<exists>w. to_wav_48k fmt bs = Inr w"
proof -
  let ?w = "int_or (af_width fmt) 2"
  have w1: "1 \<le> ?w" "?w \<le> 4" using w by (auto simp: width_ok_def)
  show ?thesis
  proof (cases "int_or (af_channels fmt) 1 = 2")
    case True
    with len have "int (length bs) mod ?w = 0 \<and> (int (length bs) div ?w) mod 2 = 0
        \<and> (int (length bs) div 2) mod ?w = 0"
      using whole_frames_mono [of ?w "int (length bs)"] w1 by simp
    with True w r show ?thesis
      by (auto simp: to_wav_48k_def audioop_defs c_int_def width_ok_def Let_def)
  next
    case False
    with ch len have "int (length bs) mod ?w = 0" by auto
    with False ch w r show ?thesis
      by (auto simp: to_wav_48k_def audioop_defs c_int_def width_ok_def Let_def)
  qed
qed

text \<open>
  C8 as stated: whatever the number of channels, the width and the rate of the synthesized
  buffer, the transform produces a container of mono 16-bit frames at 48000 Hz, downmixed
  when the input has several channels. It fails for three channels: \<^verbatim>\<open>tomono\<close> is
  applied to two-channel input only, so the interleaved frames are resampled and
  announced as mono. And it fails where the transform produces nothing, because
  \<^verbatim>\<open>audioop\<close> raises: for a buffer that is not a whole number of samples, for a
  width of 5 bytes, for a negative rate, for a rate beyond a C \<^verbatim>\<open>int\<close>.
\<close>

theorem to_wav_48k_any_input_counterexample:
  "to_wav_48k \<lparr>af_rate = 22050, af_width = 2, af_channels = 3\<rparr> [1, 2, 3, 4, 5, 6]
   = Inr \<lparr>nchannels = 1, sampwidth = 2, framerate = 48000,
          frames = RateCv (RawPcm [1, 2, 3, 4, 5, 6]) 2 1 22050 48000\<rparr>
   \<and> \<not> downmixed (RateCv (RawPcm [1, 2, 3, 4, 5, 6]) 2 1 22050 48000)
   \<and> \<not> wav_faithful (source_layout \<lparr>af_rate = 22050, af_width = 2, af_channels = 3\<rparr>)
         \<lparr>nchannels = 1, sampwidth = 2, framerate = 48000,
          frames = RateCv (RawPcm [1, 2, 3, 4, 5, 6]) 2 1 22050 48000\<rparr>
   \<and> to_wav_48k \<lparr>af_rate = 22050, af_width = 2, af_channels = 1\<rparr> [1, 2, 3] = Inl AudioopError
   \<and> to_wav_48k \<lparr>af_rate = 16000, af_width = 5, af_channels = 1\<rparr> [1, 2, 3, 4, 5] = Inl AudioopError
   \<and> to_wav_48k \<lparr>af_rate = -1, af_width = 2, af_channels = 1\<rparr> [1, 2, 3, 4] = Inl AudioopError
   \<and> to_wav_48k \<lparr>af_rate = 1099511627776, af_width = 2, af_channels = 1\<rparr> [1, 2, 3, 4] = Inl OverflowError"
  by (simp add: to_wav_48k_def audioop_tomono_def audioop_lin2lin_def audioop_ratecv_def
        c_int_def int_or_def source_layout_def wav_faithful_def width_ok_def Let_def)

text \<open>
  C8 as amended: the transform is a function of the format descriptor and the bytes
  alone, a field of the descriptor that is 0 or null standing for 1 channel, 2 bytes,
  16000 Hz. It either raises (\<^verbatim>\<open>audioop.error\<close> or \<^verbatim>\<open>OverflowError\<close>) or
  returns a container that announces one channel, 2 bytes a sample and 48000 Hz. The
  frames of that container are downmixed exactly when the input has two channels, and
  for an input of one or two channels they have the layout the container announces. It
  returns a container for every input of one or two channels, of a width of 1 to 4 bytes,
  of a positive rate within a C \<^verbatim>\<open>int\<close>, whose bytes are a whole number of frames.
\<close>

theorem to_wav_48k_output:
  "(to_wav_48k fmt bs = Inr w
      \<longrightarrow> nchannels w = 1 \<and> sampwidth w = 2 \<and> framerate w = 48000
          \<and> (downmixed (frames w) \<longleftrightarrow> int_or (af_channels fmt) 1 = 2)
          \<and> (int_or (af_channels fmt) 1 = 1 \<or> int_or (af_channels fmt) 1 = 2
               \<longrightarrow> wav_faithful (source_layout fmt) w))
   \<and> (to_wav_48k fmt bs = Inl e \<longrightarrow> e = AudioopError \<or> e = OverflowError)
   \<and> ((int_or (af_channels fmt) 1 = 1 \<or> int_or (af_channels fmt) 1 = 2)
        \<and> width_ok (int_or (af_width fmt) 2)
        \<and> 0 < int_or (af_rate fmt) 16000 \<and> c_int (int_or (af_rate fmt) 16000)
        \<and> int (length bs) mod (int_or (af_width fmt) 2 * int_or (af_channels fmt) 1) = 0
      \<longrightarrow> (\<exists>w'. to_wav_48k fmt bs = Inr w'))"
proof (intro conjI impI)
  assume h: "to_wav_48k fmt bs = Inr w"
  show "nchannels w = 1" "sampwidth w = 2" "framerate w = 48000"
    using to_wav_48k_header [OF h] by simp_all
  show "downmixed (frames w) \<longleftrightarrow> int_or (af_channels fmt) 1 = 2"
    using to_wav_48k_downmixed [OF h] .
  assume "int_or (af_channels fmt) 1 = 1 \<or> int_or (af_channels fmt) 1 = 2"
  then show "wav_faithful (source_layout fmt) w"
    using to_wav_48k_faithful [OF h] by simp
next
  assume "to_wav_48k fmt bs = Inl e"
  then show "e = AudioopError \<or> e = OverflowError"
    by (rule to_wav_48k_errors)
next
  assume a: "(int_or (af_channels fmt) 1 = 1 \<or> int_or (af_channels fmt) 1 = 2)
        \<and> width_ok (int_or (af_width fmt) 2)
        \<and> 0 < int_or (af_rate fmt) 16000 \<and> c_int (int_or (af_rate fmt) 16000)
        \<and> int (length bs) mod (int_or (af_width fmt) 2 * int_or (af_channels fmt) 1) = 0"
  show "\<exists>w'. to_wav_48k fmt bs = Inr w'"
    by (rule to_wav_48k_defined) (simp_all add: a)
qed

theorem to_wav_48k_output_witness:
  "to_wav_48k \<lparr>af_rate = 22050, af_width = 2, af_channels = 2\<rparr> [1, 2, 3, 4]
   = Inr \<lparr>nchannels = 1, sampwidth = 2, framerate = 48000,
          frames = RateCv (ToMono (RawPcm [1, 2, 3, 4]) 2) 2 1 22050 48000\<rparr>
   \<and> wav_faithful (source_layout \<lparr>af_rate = 22050, af_width = 2, af_channels = 2\<rparr>)
       \<lparr>nchannels = 1, sampwidth = 2, framerate = 48000,
        frames = RateCv (ToMono (RawPcm [1, 2, 3, 4]) 2) 2 1 22050 48000\<rparr>
   \<and> to_wav_48k \<lparr>af_rate = 16000, af_width = 1, af_channels = 1\<rparr> [1, 2, 3, 4]
   = Inr \<lparr>nchannels = 1, sampwidth = 2, framerate = 48000,
          frames = RateCv (Lin2Lin (RawPcm [1, 2, 3, 4]) 1 2) 2 1 16000 48000\<rparr>
   \<and> wav_faithful (source_layout \<lparr>af_rate = 16000, af_width = 1, af_channels = 1\<rparr>)
       \<lparr>nchannels = 1, sampwidth = 2, framerate = 48000,
        frames = RateCv (Lin2Lin (RawPcm [1, 2, 3, 4]) 1 2) 2 1 16000 48000\<rparr>
   \<and> to_wav_48k \<lparr>af_rate = 0, af_width = 0, af_channels = 0\<rparr> [1, 2] = Inr \<lparr>nchannels = 1, sampwidth = 2, framerate = 48000,
          frames = RateCv (RawPcm [1, 2]) 2 1 16000 48000\<rparr>"
  using to_wav_48k_output
      [where fmt = "\<lparr>af_rate = 22050, af_width = 2, af_channels = 2\<rparr>" and bs = "[1, 2, 3, 4]"
         and w = "\<lparr>nchannels = 1, sampwidth = 2, framerate = 48000,
                   frames = RateCv (ToMono (RawPcm [1, 2, 3, 4]) 2) 2 1 22050 48000\<rparr>"
         and e = AudioopError]
    to_wav_48k_output
      [where fmt = "\<lparr>af_rate = 16000, af_width = 1, af_channels = 1\<rparr>" and bs = "[1, 2, 3, 4]"
         and w = "\<lparr>nchannels = 1, sampwidth = 2, framerate = 48000,
                   frames = RateCv (Lin2Lin (RawPcm [1, 2, 3, 4]) 1 2) 2 1 16000 48000\<rparr>"
         and e = AudioopError]
  by (simp add: to_wav_48k_def audioop_tomono_def audioop_lin2lin_def audioop_ratecv_def
        c_int_def int_or_def source_layout_def wav_faithful_def width_ok_def Let_def)

section \<open>Malformed payloads\<close>

lemmas router_eval =
  on_message_router_def heard_text_def intent_reply_def startswith_def py_lower_def
  strip_def py_isspace_def pystr_of_def on_message_def Let_def

text \<open>
  C9 as stated: a malformed payload is ignored, and no capture and no reply follows from
  it. It fails on both handlers: the gateway takes a payload that is not a number for a
  request of the default duration and starts the capture, and the dialogue router takes a
  payload that is not JSON for an empty text and publishes its reply to it.
\<close>

theorem malformed_payload_acted_on_counterexample:
  "on_message \<lparr>STT_SECS_DEFAULT = 3\<rparr> \<lparr>stt_busy = False\<rparr>
     \<lparr>m_topic = TOPIC_STT_CAP, m_text = pystr_of ''abc'', m_float = None\<rparr>
   = ([Log ''MQTT:''], \<lparr>stt_busy = True\<rparr>, Some (SttJob 3))
   \<and> on_message_router (pystr_of ''It is 9:41 AM.'')
     \<lparr>d_payload = pystr_of ''{nope'', d_loads = LoadsRaises\<rparr>
   = [Log ''[dialogue] heard='',
      Publish TOPIC_TTS_SAY (PlainText (pystr_of ''I didn't catch that.''))]"
  by (simp add: router_eval)

text \<open>
  C9 as amended: a malformed payload raises nothing out of its handler, whose result is a
  list of actions in every case. A payload on \<open>stt/capture\<close> that is not a number is
  handled as the empty payload is, that is as a request of \<^verbatim>\<open>STT_SECS_DEFAULT\<close>
  seconds, dropped when the gateway is busy and started otherwise. A payload on
  \<open>stt/text\<close> that starts with a brace and is not JSON is handled as the empty text,
  to which the router replies on \<open>tts/say\<close> that it did not catch that.
\<close>

theorem malformed_payload_defaults:
  "(m_topic m = TOPIC_STT_CAP \<and> m_float m = None
      \<longrightarrow> on_message cfg st m = on_message cfg st (m\<lparr>m_text := []\<rparr>)
          \<and> on_message cfg st m
              = (if stt_busy st then ([Log ''MQTT:'', Log ''STT: busy; ignoring request.''], st, None)
                 else ([Log ''MQTT:''], st\<lparr>stt_busy := True\<rparr>,
                       Some (SttJob (STT_SECS_DEFAULT cfg)))))
   \<and> (startswith (strip (d_payload dm)) (pystr_of ''{'') \<and> d_loads dm = LoadsRaises
      \<longrightarrow> heard_text dm = []
          \<and> on_message_router time_reply dm
              = [Log ''[dialogue] heard='',
                 Publish TOPIC_TTS_SAY (PlainText (pystr_of ''I didn't catch that.''))])"
proof (intro conjI impI)
  assume h: "m_topic m = TOPIC_STT_CAP \<and> m_float m = None"
  then show "on_message cfg st m = on_message cfg st (m\<lparr>m_text := []\<rparr>)"
    by (simp add: on_message_def strip_def Let_def)
  from h show "on_message cfg st m
      = (if stt_busy st then ([Log ''MQTT:'', Log ''STT: busy; ignoring request.''], st, None)
         else ([Log ''MQTT:''], st\<lparr>stt_busy := True\<rparr>, Some (SttJob (STT_SECS_DEFAULT cfg))))"
    by (simp add: on_message_def Let_def)
next
  assume h: "startswith (strip (d_payload dm)) (pystr_of ''{'') \<and> d_loads dm = LoadsRaises"
  then show heard: "heard_text dm = []"
    by (simp add: heard_text_def Let_def)
  show "on_message_router time_reply dm
      = [Log ''[dialogue] heard='',
         Publish TOPIC_TTS_SAY (PlainText (pystr_of ''I didn't catch that.''))]"
    by (simp add: on_message_router_def heard intent_reply_def strip_def pystr_of_def Let_def)
qed

theorem malformed_payload_defaults_witness:
  "on_message \<lparr>STT_SECS_DEFAULT = 3\<rparr> \<lparr>stt_busy = True\<rparr>
     \<lparr>m_topic = TOPIC_STT_CAP, m_text = pystr_of ''abc'', m_float = None\<rparr>
   = ([Log ''MQTT:'', Log ''STT: busy; ignoring request.''], \<lparr>stt_busy = True\<rparr>, None)
   \<and> on_message \<lparr>STT_SECS_DEFAULT = 3\<rparr> \<lparr>stt_busy = False\<rparr>
     \<lparr>m_topic = TOPIC_STT_CAP, m_text = pystr_of ''abc'', m_float = None\<rparr>
   = on_message \<lparr>STT_SECS_DEFAULT = 3\<rparr> \<lparr>stt_busy = False\<rparr>
     \<lparr>m_topic = TOPIC_STT_CAP, m_text = [], m_float = None\<rparr>
   \<and> heard_text \<lparr>d_payload = pystr_of ''{nope'', d_loads = LoadsRaises\<rparr> = []"
  using malformed_payload_defaults
    [where cfg = "\<lparr>STT_SECS_DEFAULT = 3\<rparr>" and st = "\<lparr>stt_busy = True\<rparr>"
       and m = "\<lparr>m_topic = TOPIC_STT_CAP, m_text = pystr_of ''abc'', m_float = None\<rparr>"
       and dm = "\<lparr>d_payload = pystr_of ''{nope'', d_loads = LoadsRaises\<rparr>"]
    malformed_payload_defaults
    [where cfg = "\<lparr>STT_SECS_DEFAULT = 3\<rparr>" and st = "\<lparr>stt_busy = False\<rparr>"
       and m = "\<lparr>m_topic = TOPIC_STT_CAP, m_text = pystr_of ''abc'', m_float = None\<rparr>"
       and dm = "\<lparr>d_payload = pystr_of ''{nope'', d_loads = LoadsRaises\<rparr>"]
  by (simp add: router_eval)

section \<open>The two services and the microphone\<close>

lemma mic_after_append: "mic_after m (xs @ ys) = mic_after (mic_after m xs) ys"
  by (induction xs arbitrary: m) auto

lemma capture_next_to_wake_append:
  "capture_next_to_wake m (xs @ ys)
     \<longleftrightarrow> capture_next_to_wake m xs \<or> capture_next_to_wake (mic_after m xs) ys"
  by (induction xs arbitrary: m) auto

text \<open>
  An accepted capture request creates the process of \<^verbatim>\<open>stt_once\<close> right after two log
  lines: nothing that the wake listener does or has left behind is looked at.
\<close>

lemma handle_capture_spawns:
  assumes "\<not> stt_busy st" "m_topic m = TOPIC_STT_CAP" "s_spawn_ok env"
  shows "\<exists>secs rest. handle_capture cfg st env m
           = Log ''MQTT:'' # Log ''STT: starting capture:'' # Spawn (SttArecord secs) # rest"
proof -
  obtain secs where om:
    "on_message cfg st m = ([Log ''MQTT:''], st\<lparr>stt_busy := True\<rparr>, Some (SttJob secs))"
    using assms by (simp add: on_message_def Let_def)
  obtain rest where r: "snd (stt_once env secs)
      = Log ''STT: starting capture:'' # Spawn (SttArecord secs) # rest"
    using stt_once_spawns_first [OF assms(3)] by blast
  show ?thesis
    using om r
    by (cases "stt_once env secs")
       (auto simp: handle_capture_def capture_session_def split: prod.splits)
qed

text \<open>
  C1. The gateway creates its capture process for every request it accepts, whatever
  process of the wake listener is there: after any actions \<open>L\<close> of the wake listener
  that leave a process of its own whose exit was not seen, be it the current one or one
  left by an earlier run of \<^verbatim>\<open>stream_and_listen\<close>, the capture process is created
  next to it. Two runs of \<^verbatim>\<open>main_async\<close> get there with the wake listener's own
  request. In the first, the stream of the recognizer ends with the pump task failed:
  the \<^verbatim>\<open>finally\<close> block raises the exception of the task again at its
  \<^verbatim>\<open>await\<close>, before \<^verbatim>\<open>stop_arecord\<close>; the process is left, the restart loop
  creates another, and on the next wake that other one is stopped and the request
  published. In the second, the process outlives both waits of \<^verbatim>\<open>stop_arecord\<close>.
\<close>

theorem capture_spawned_next_to_wake_process:
  "\<not> stt_busy st \<and> m_topic m = TOPIC_STT_CAP \<and> s_spawn_ok env
   \<and> (mic_current (mic_after mic0 L) \<or> 0 < mic_leaked (mic_after mic0 L))
   \<longrightarrow> capture_next_to_wake mic0 (L @ handle_capture cfg st env m)"
proof
  assume h: "\<not> stt_busy st \<and> m_topic m = TOPIC_STT_CAP \<and> s_spawn_ok env
      \<and> (mic_current (mic_after mic0 L) \<or> 0 < mic_leaked (mic_after mic0 L))"
  then obtain secs rest where run: "handle_capture cfg st env m
      = Log ''MQTT:'' # Log ''STT: starting capture:'' # Spawn (SttArecord secs) # rest"
    using handle_capture_spawns [of st m env cfg] by blast
  show "capture_next_to_wake mic0 (L @ handle_capture cfg st env m)"
    using h by (simp add: capture_next_to_wake_append run mic_step_def)
qed

theorem capture_spawned_next_to_wake_process_witness:
  "(until_request (main_async \<lparr>WAKE_COOLDOWN = 1, CAPTURE_SECS = 3\<rparr> True
       [\<lparr>l_connect_ok = True, l_start_ok = True, l_spawn_ok = True, l_ready = 990,
        l_events = [],
        l_end_pump = PumpRaised, l_end_exits = ExitsOnTerminate, l_stderr = False,
        l_disconnect_ok = True\<rparr>,
        \<lparr>l_connect_ok = True, l_start_ok = True, l_spawn_ok = True, l_ready = 995,
        l_events = [\<lparr>e_arrival = 1000, e_lag = 0,
          e_tick = \<lparr>t_event = WakeEv \<lparr>wd_name = None, wd_probability = None, wd_timestamp = None\<rparr>,
            t_now = 0, t_beep_ok = True, t_pump = PumpRunning, t_exits = ExitsOnTerminate,
            t_respawn_ok = True\<rparr>\<rparr>],
        l_end_pump = PumpRunning, l_end_exits = ExitsOnTerminate, l_stderr = False,
        l_disconnect_ok = True\<rparr>]))
   = [Log ''[wake] MQTT connected'', Connect WakeService, WriteAudioStart WakeService,
        Log ''[wake] starting capture:'', Spawn WakeArecord, StartPump, CancelPump, AwaitPump,
        Log ''[wake] error:'', Sleep (1 / 2), Connect WakeService, WriteAudioStart WakeService,
        Log ''[wake] starting capture:'', Spawn WakeArecord, StartPump, Log ''[wake] detected:'',
        Publish TOPIC_WAKE (WakeJson \<lparr>wd_name = None, wd_probability = None, wd_timestamp = None\<rparr>),
        Spawn BeepScript, Log ''[wake] pausing mic for STT'', CancelPump, AwaitPump,
        Terminate WakeArecord, WaitExit WakeArecord True,
        Publish TOPIC_STT_CAP (PlainText (pystr_of ''3''))]
   \<and> mic_after mic0 (until_request (main_async \<lparr>WAKE_COOLDOWN = 1, CAPTURE_SECS = 3\<rparr> True
       [\<lparr>l_connect_ok = True, l_start_ok = True, l_spawn_ok = True, l_ready = 990,
        l_events = [],
        l_end_pump = PumpRaised, l_end_exits = ExitsOnTerminate, l_stderr = False,
        l_disconnect_ok = True\<rparr>,
        \<lparr>l_connect_ok = True, l_start_ok = True, l_spawn_ok = True, l_ready = 995,
        l_events = [\<lparr>e_arrival = 1000, e_lag = 0,
          e_tick = \<lparr>t_event = WakeEv \<lparr>wd_name = None, wd_probability = None, wd_timestamp = None\<rparr>,
            t_now = 0, t_beep_ok = True, t_pump = PumpRunning, t_exits = ExitsOnTerminate,
            t_respawn_ok = True\<rparr>\<rparr>],
        l_end_pump = PumpRunning, l_end_exits = ExitsOnTerminate, l_stderr = False,
        l_disconnect_ok = True\<rparr>]))
     = \<lparr>mic_current = False, mic_leaked = 1, mic_stt = 0\<rparr>
   \<and> capture_next_to_wake mic0
       ((until_request (main_async \<lparr>WAKE_COOLDOWN = 1, CAPTURE_SECS = 3\<rparr> True
       [\<lparr>l_connect_ok = True, l_start_ok = True, l_spawn_ok = True, l_ready = 990,
        l_events = [],
        l_end_pump = PumpRaised, l_end_exits = ExitsOnTerminate, l_stderr = False,
        l_disconnect_ok = True\<rparr>,
        \<lparr>l_connect_ok = True, l_start_ok = True, l_spawn_ok = True, l_ready = 995,
        l_events = [\<lparr>e_arrival = 1000, e_lag = 0,
          e_tick = \<lparr>t_event = WakeEv \<lparr>wd_name = None, wd_probability = None, wd_timestamp = None\<rparr>,
            t_now = 0, t_beep_ok = True, t_pump = PumpRunning, t_exits = ExitsOnTerminate,
            t_respawn_ok = True\<rparr>\<rparr>],
        l_end_pump = PumpRunning, l_end_exits = ExitsOnTerminate, l_stderr = False,
        l_disconnect_ok = True\<rparr>]))
        @ handle_capture \<lparr>STT_SECS_DEFAULT = 3\<rparr> \<lparr>stt_busy = False\<rparr>
            \<lparr>s_spawn_ok = True, s_connect_ok = True, s_start_ok = True,
        s_reads = [Chunk True], s_stop_ok = True, s_t0 = 1001,
        s_waits = [], s_disconnect_ok = True, s_communicate = Some False\<rparr>
            \<lparr>m_topic = TOPIC_STT_CAP, m_text = pystr_of ''3'', m_float = Some 3\<rparr>)
   \<and> (until_request (main_async \<lparr>WAKE_COOLDOWN = 1, CAPTURE_SECS = 3\<rparr> True
       [\<lparr>l_connect_ok = True, l_start_ok = True, l_spawn_ok = True, l_ready = 995,
        l_events = [\<lparr>e_arrival = 1000, e_lag = 0,
          e_tick = \<lparr>t_event = WakeEv \<lparr>wd_name = None, wd_probability = None, wd_timestamp = None\<rparr>,
            t_now = 0, t_beep_ok = True, t_pump = PumpRunning, t_exits = NeverExits,
            t_respawn_ok = True\<rparr>\<rparr>],
        l_end_pump = PumpRunning, l_end_exits = ExitsOnTerminate, l_stderr = False,
        l_disconnect_ok = True\<rparr>]))
   = [Log ''[wake] MQTT connected'', Connect WakeService, WriteAudioStart WakeService,
        Log ''[wake] starting capture:'', Spawn WakeArecord, StartPump, Log ''[wake] detected:'',
        Publish TOPIC_WAKE (WakeJson \<lparr>wd_name = None, wd_probability = None, wd_timestamp = None\<rparr>),
        Spawn BeepScript, Log ''[wake] pausing mic for STT'', CancelPump, AwaitPump,
        Terminate WakeArecord, WaitExit WakeArecord False, Kill WakeArecord,
        WaitExit WakeArecord False, Publish TOPIC_STT_CAP (PlainText (pystr_of ''3''))]
   \<and> mic_after mic0 (until_request (main_async \<lparr>WAKE_COOLDOWN = 1, CAPTURE_SECS = 3\<rparr> True
       [\<lparr>l_connect_ok = True, l_start_ok = True, l_spawn_ok = True, l_ready = 995,
        l_events = [\<lparr>e_arrival = 1000, e_lag = 0,
          e_tick = \<lparr>t_event = WakeEv \<lparr>wd_name = None, wd_probability = None, wd_timestamp = None\<rparr>,
            t_now = 0, t_beep_ok = True, t_pump = PumpRunning, t_exits = NeverExits,
            t_respawn_ok = True\<rparr>\<rparr>],
        l_end_pump = PumpRunning, l_end_exits = ExitsOnTerminate, l_stderr = False,
        l_disconnect_ok = True\<rparr>]))
     = \<lparr>mic_current = True, mic_leaked = 0, mic_stt = 0\<rparr>
   \<and> capture_next_to_wake mic0
       ((until_request (main_async \<lparr>WAKE_COOLDOWN = 1, CAPTURE_SECS = 3\<rparr> True
       [\<lparr>l_connect_ok = True, l_start_ok = True, l_spawn_ok = True, l_ready = 995,
        l_events = [\<lparr>e_arrival = 1000, e_lag = 0,
          e_tick = \<lparr>t_event = WakeEv \<lparr>wd_name = None, wd_probability = None, wd_timestamp = None\<rparr>,
            t_now = 0, t_beep_ok = True, t_pump = PumpRunning, t_exits = NeverExits,
            t_respawn_ok = True\<rparr>\<rparr>],
        l_end_pump = PumpRunning, l_end_exits = ExitsOnTerminate, l_stderr = False,
        l_disconnect_ok = True\<rparr>]))
        @ handle_capture \<lparr>STT_SECS_DEFAULT = 3\<rparr> \<lparr>stt_busy = False\<rparr>
            \<lparr>s_spawn_ok = True, s_connect_ok = True, s_start_ok = True,
        s_reads = [Chunk True], s_stop_ok = True, s_t0 = 1001,
        s_waits = [], s_disconnect_ok = True, s_communicate = Some False\<rparr>
            \<lparr>m_topic = TOPIC_STT_CAP, m_text = pystr_of ''3'', m_float = Some 3\<rparr>)"
  using capture_spawned_next_to_wake_process
    [where st = "\<lparr>stt_busy = False\<rparr>" and cfg = "\<lparr>STT_SECS_DEFAULT = 3\<rparr>"
       and m = "\<lparr>m_topic = TOPIC_STT_CAP, m_text = pystr_of ''3'', m_float = Some 3\<rparr>"
       and env = "\<lparr>s_spawn_ok = True, s_connect_ok = True, s_start_ok = True,
        s_reads = [Chunk True], s_stop_ok = True, s_t0 = 1001,
        s_waits = [], s_disconnect_ok = True, s_communicate = Some False\<rparr>"
       and L = "(until_request (main_async \<lparr>WAKE_COOLDOWN = 1, CAPTURE_SECS = 3\<rparr> True
       [\<lparr>l_connect_ok = True, l_start_ok = True, l_spawn_ok = True, l_ready = 990,
        l_events = [],
        l_end_pump = PumpRaised, l_end_exits = ExitsOnTerminate, l_stderr = False,
        l_disconnect_ok = True\<rparr>,
        \<lparr>l_connect_ok = True, l_start_ok = True, l_spawn_ok = True, l_ready = 995,
        l_events = [\<lparr>e_arrival = 1000, e_lag = 0,
          e_tick = \<lparr>t_event = WakeEv \<lparr>wd_name = None, wd_probability = None, wd_timestamp = None\<rparr>,
            t_now = 0, t_beep_ok = True, t_pump = PumpRunning, t_exits = ExitsOnTerminate,
            t_respawn_ok = True\<rparr>\<rparr>],
        l_end_pump = PumpRunning, l_end_exits = ExitsOnTerminate, l_stderr = False,
        l_disconnect_ok = True\<rparr>]))"]
    capture_spawned_next_to_wake_process
    [where st = "\<lparr>stt_busy = False\<rparr>" and cfg = "\<lparr>STT_SECS_DEFAULT = 3\<rparr>"
       and m = "\<lparr>m_topic = TOPIC_STT_CAP, m_text = pystr_of ''3'', m_float = Some 3\<rparr>"
       and env = "\<lparr>s_spawn_ok = True, s_connect_ok = True, s_start_ok = True,
        s_reads = [Chunk True], s_stop_ok = True, s_t0 = 1001,
        s_waits = [], s_disconnect_ok = True, s_communicate = Some False\<rparr>"
       and L = "(until_request (main_async \<lparr>WAKE_COOLDOWN = 1, CAPTURE_SECS = 3\<rparr> True
       [\<lparr>l_connect_ok = True, l_start_ok = True, l_spawn_ok = True, l_ready = 995,
        l_events = [\<lparr>e_arrival = 1000, e_lag = 0,
          e_tick = \<lparr>t_event = WakeEv \<lparr>wd_name = None, wd_probability = None, wd_timestamp = None\<rparr>,
            t_now = 0, t_beep_ok = True, t_pump = PumpRunning, t_exits = NeverExits,
            t_respawn_ok = True\<rparr>\<rparr>],
        l_end_pump = PumpRunning, l_end_exits = ExitsOnTerminate, l_stderr = False,
        l_disconnect_ok = True\<rparr>]))"]
  by (simp add: main_async_def stream_and_listen_def wake_finally_def wake_run_def reading_def drain_def
        wake_defs wake_init_def mic0_def mic_step_def py_str_int_def pystr_of_def)
end
